theory Spec2Isabelle
  imports
    Main
    "HOL-Library.Char_ord"
    "HOL-Library.List_Lexorder"
    "HOL-Library.Sublist"
    "HOL-Library.Word"
begin

section \<open>The worker's GCE backend and its entry point\<close>

text \<open>
  A shallow embedding of \<^verbatim>\<open>src/cmd/travis-worker/main.go\<close>: the entry point
  (\<^verbatim>\<open>main\<close>, \<^verbatim>\<open>runWorker\<close>) and the GCE backend (\<^verbatim>\<open>GCEProvider\<close>,
  \<^verbatim>\<open>GCEInstance\<close>).

  Go strings are byte strings and are modelled as \<^typ>\<open>string\<close>; \<^verbatim>\<open>sort.Strings\<close>
  and \<^verbatim>\<open><\<close> on strings compare bytewise, which is the lexicographic order of
  \<^typ>\<open>char list\<close> over the byte order of \<^typ>\<open>char\<close>. A Go \<^verbatim>\<open>error\<close> that may be
  \<^verbatim>\<open>nil\<close> is an \<open>error option\<close>; a call returning \<^verbatim>\<open>(T, error)\<close> is an
  \<open>error + T\<close>. Everything the code asks of the outside (the compute API, the SSH and
  SFTP libraries, the message bus) is a parameter: the response the outside gives.
\<close>

subsection \<open>Errors\<close>

record OperationErrorErrors =
  oe_Code :: string
  oe_Location :: string
  oe_Message :: string

text \<open>
  The error values the code tells apart. \<open>ErrStaleVM\<close> is the package's sentinel;
  \<open>Errorf\<close> is an error made by \<^verbatim>\<open>fmt.Errorf\<close> with its message; \<open>gceOpError\<close> wraps the
  \<^verbatim>\<open>Errors\<close> of a \<^verbatim>\<open>compute.OperationError\<close>; \<open>Canceled\<close> and \<open>DeadlineExceeded\<close>
  are the two values of \<^verbatim>\<open>ctx.Err()\<close>; \<open>ExitError\<close> is \<^verbatim>\<open>*ssh.ExitError\<close> with its
  \<^verbatim>\<open>ExitStatus()\<close> (a Go \<^verbatim>\<open>int\<close>); \<open>External\<close> is any other error of a library or of
  a remote service; \<open>NilPointerDereference\<close> is the run-time panic of a field read
  through a nil pointer.
\<close>

datatype error =
    ErrStaleVM
  | Errorf string
  | gceOpError "OperationErrorErrors list"
  | Canceled
  | DeadlineExceeded
  | ExitError int
  | External string
  | NilPointerDereference

definition gceMissingIPAddressError :: error where
  "gceMissingIPAddressError = Errorf ''no IP address found''"

text \<open>
  \<^verbatim>\<open>strings.Join(elems, sep)\<close>, and \<^verbatim>\<open>gceOpError.Error\<close>:
  \<^verbatim>\<open>
  errStrs := []string{}
  for _, err := range oe.Err.Errors {
      errStrs = append(errStrs, fmt.Sprintf("code=%s location=%s message=%s",
          err.Code, err.Location, err.Message))
  }
  return strings.Join(errStrs, ", ")
  \<close>
\<close>

fun strings_Join :: "string list \<Rightarrow> string \<Rightarrow> string" where
  "strings_Join [] sep = []"
| "strings_Join [s] sep = s"
| "strings_Join (s # t # rest) sep = s @ sep @ strings_Join (t # rest) sep"

definition errStr :: "OperationErrorErrors \<Rightarrow> string" where
  "errStr err =
     ''code='' @ oe_Code err @ '' location='' @ oe_Location err @ '' message='' @ oe_Message err"

definition gceOpError_Error :: "OperationErrorErrors list \<Rightarrow> string" where
  "gceOpError_Error errs = strings_Join (map errStr errs) '', ''"

subsection \<open>The compute API's data\<close>

text \<open>
  The fields of the \<^verbatim>\<open>compute\<close> structs that the code reads or writes. Record fields
  carry a prefix, since several structs share field names (\<^verbatim>\<open>Name\<close>, \<^verbatim>\<open>Type\<close>).
  A slice is a list (a nil slice is the empty list: the code only ranges over them).
\<close>

record Image =
  img_Name :: string
  img_SelfLink :: string

record AccessConfig =
  ac_Name :: string
  ac_Type :: string
  ac_NatIP :: string

record NetworkInterface =
  ni_AccessConfigs :: "AccessConfig list"
  ni_Network :: string

record AttachedDiskInitializeParams =
  ip_SourceImage :: string
  ip_DiskType :: string
  ip_DiskSizeGb :: int

record AttachedDisk =
  ad_Type :: string
  ad_Mode :: string
  ad_Boot :: bool
  ad_AutoDelete :: bool
  ad_InitializeParams :: AttachedDiskInitializeParams

record Scheduling =
  sch_Preemptible :: bool

record MetadataItems =
  mi_Key :: string
  mi_Value :: string

record ServiceAccount =
  sa_Email :: string
  sa_Scopes :: "string list"

record ComputeInstance =
  ci_Description :: string
  ci_Disks :: "AttachedDisk list"
  ci_Scheduling :: Scheduling
  ci_MachineType :: string
  ci_Name :: string
  ci_Metadata :: "MetadataItems list"
  ci_NetworkInterfaces :: "NetworkInterface list"
  ci_ServiceAccounts :: "ServiceAccount list"
  ci_Tags :: "string list"

text \<open>A zone operation: \<open>op_Error\<close> is the pointer \<^verbatim>\<open>Error\<close>, \<open>None\<close> when nil.\<close>

record Operation =
  op_Name :: string
  op_Status :: string
  op_Error :: "OperationErrorErrors list option"

subsection \<open>Provider, instance and the compute service\<close>

record gceInstanceConfig =
  ic_MachineType_SelfLink :: string
  ic_Zone_Name :: string
  ic_Network_SelfLink :: string
  ic_DiskType :: string
  ic_DiskSize :: int
  ic_SSHKeySigner :: string
  ic_SSHPubKey :: string

record GCEProvider =
  p_projectID :: string
  p_ic :: gceInstanceConfig
  p_defaultLanguage :: string
  p_languageMappings :: "string \<rightharpoonup> string"

text \<open>
  Modelled from the spec: \<^verbatim>\<open>StartAttributes\<close>, \<^verbatim>\<open>RunResult\<close> and the sentinel
  \<^verbatim>\<open>ErrStaleVM\<close> are declared in the \<^verbatim>\<open>backend\<close> package outside this file. The
  specification gives \<^verbatim>\<open>StartAttributes\<close> as \<^verbatim>\<open>{language}\<close> and \<^verbatim>\<open>RunResult\<close> as
  \<^verbatim>\<open>{completed: bool, exitCode: uint8}\<close>; the code reads and writes them as
  \<^verbatim>\<open>startAttributes.Language\<close>, \<^verbatim>\<open>Completed\<close> and \<^verbatim>\<open>ExitCode\<close>, the last through the
  conversion \<^verbatim>\<open>uint8(...)\<close>.
\<close>

record StartAttributes =
  Language :: string

record RunResult =
  Completed :: bool
  ExitCode :: "8 word"

record GCEInstance =
  i_provider :: GCEProvider
  i_instance :: ComputeInstance
  i_ic :: gceInstanceConfig
  i_authUser :: string
  i_projectID :: string
  i_imageName :: string

text \<open>
  The compute service (\<^verbatim>\<open>p.client\<close>, \<^verbatim>\<open>i.client\<close>) as the responses it gives:
  \<^item> \<open>Images_List project filter\<close>: \<^verbatim>\<open>Images.List(project).Filter(filter).Do()\<close>, the
    \<^verbatim>\<open>Items\<close> of the answer;
  \<^item> \<open>Instances_Insert project zone inst\<close> and \<open>Instances_Delete project zone name\<close>;
  \<^item> \<open>ZoneOperations_Get n project zone name\<close>: the answer to the \<open>n\<close>-th poll
    (counted from 0) of a poll loop, since the answer changes while the operation runs;
  \<^item> \<open>NewUUID\<close>: the string of \<^verbatim>\<open>uuid.NewUUID()\<close>.
\<close>

record compute_Service =
  Images_List :: "string \<Rightarrow> string \<Rightarrow> error + Image list"
  Instances_Insert :: "string \<Rightarrow> string \<Rightarrow> ComputeInstance \<Rightarrow> error + Operation"
  Instances_Delete :: "string \<Rightarrow> string \<Rightarrow> string \<Rightarrow> error + Operation"
  ZoneOperations_Get :: "nat \<Rightarrow> string \<Rightarrow> string \<Rightarrow> string \<Rightarrow> error + Operation"
  NewUUID :: string

subsection \<open>Image selection\<close>

text \<open>
  \<^verbatim>\<open>gceImagesFilter = "name eq ^travis-ci-%s.+"\<close>, formatted with the language.
\<close>

definition gceImagesFilter :: "string \<Rightarrow> string" where
  "gceImagesFilter language = ''name eq ^travis-ci-'' @ language @ ''.+''"

text \<open>
  \<^verbatim>\<open>
  func (p *GCEProvider) imageForLanguage(language string) (*compute.Image, error) {
      images, err := p.client.Images.List(p.projectID).Filter(fmt.Sprintf(gceImagesFilter, language)).Do()
      if err != nil { return nil, err }
      if len(images.Items) == 0 {
          return nil, fmt.Errorf("no image found with language %s", language)
      }
      imagesByName := map[string]*compute.Image{}
      imageNames := []string{}
      for _, image := range images.Items {
          imagesByName[image.Name] = image
          imageNames = append(imageNames, image.Name)
      }
      sort.Strings(imageNames)
      return imagesByName[imageNames[len(imageNames)-1]], nil
  }
  \<close>
  The returned pointer is an \<open>Image option\<close>: a Go map answers nil for a missing key.
  \<open>imageNames\<close> has the length of \<open>Items\<close>, which is not 0 where it is indexed.
\<close>

definition imagesByName_of :: "Image list \<Rightarrow> (string \<rightharpoonup> Image)" where
  "imagesByName_of items = fold (\<lambda>img m. m(img_Name img \<mapsto> img)) items Map.empty"

definition imageNames_of :: "Image list \<Rightarrow> string list" where
  "imageNames_of items = fold (\<lambda>img names. names @ [img_Name img]) items []"

definition imageForLanguage ::
  "compute_Service \<Rightarrow> GCEProvider \<Rightarrow> string \<Rightarrow> error + Image option" where
  "imageForLanguage c p language =
     (case Images_List c (p_projectID p) (gceImagesFilter language) of
        Inl err \<Rightarrow> Inl err
      | Inr items \<Rightarrow>
          if length items = 0
          then Inl (Errorf (''no image found with language '' @ language))
          else
            let imagesByName = imagesByName_of items;
                imageNames = sort (imageNames_of items)
            in Inr (imagesByName (imageNames ! (length imageNames - 1))))"

text \<open>
  The head of \<^verbatim>\<open>Start\<close>:
  \<^verbatim>\<open>
  candidateLangs := []string{startAttributes.Language}
  if lang, ok := p.languageMappings[startAttributes.Language]; ok {
      candidateLangs = append(candidateLangs, lang)
  }
  candidateLangs = append(candidateLangs, p.defaultLanguage)

  for _, language := range candidateLangs {
      image, err = p.imageForLanguage(language)
      if err == nil { break }
  }
  if err != nil { return nil, err }
  \<close>
  \<open>imageLoop\<close> is the loop over the state \<open>(image, err)\<close>, both nil at first.
\<close>

definition candidateLangs :: "GCEProvider \<Rightarrow> StartAttributes \<Rightarrow> string list" where
  "candidateLangs p startAttributes =
     [Language startAttributes]
     @ (case p_languageMappings p (Language startAttributes) of
          Some lang \<Rightarrow> [lang]
        | None \<Rightarrow> [])
     @ [p_defaultLanguage p]"

fun imageLoop ::
  "compute_Service \<Rightarrow> GCEProvider \<Rightarrow> string list \<Rightarrow> Image option \<times> error option
     \<Rightarrow> Image option \<times> error option" where
  "imageLoop c p [] (img, err) = (img, err)"
| "imageLoop c p (language # rest) (img, err) =
     (case imageForLanguage c p language of
        Inr img' \<Rightarrow> (img', None)
      | Inl err' \<Rightarrow> imageLoop c p rest (None, Some err'))"

definition selectImage ::
  "compute_Service \<Rightarrow> GCEProvider \<Rightarrow> StartAttributes \<Rightarrow> Image option \<times> error option" where
  "selectImage c p startAttributes =
     imageLoop c p (candidateLangs p startAttributes) (None, None)"

subsection \<open>Booting a VM: \<^verbatim>\<open>GCEProvider.Start\<close>\<close>

text \<open>
  \<^verbatim>\<open>
  gceStartupScript = `#!/usr/bin/env bash
  cat > ~travis/.ssh/authorized_keys <<EOF
  %s
  EOF
  `
  \<close>
  formatted with the public key (\<^verbatim>\<open>fmt.Sprintf(gceStartupScript, p.ic.SSHPubKey)\<close>);
  \<open>CHR 0x0A\<close> is the newline. The two scope constants are those of the \<^verbatim>\<open>compute\<close>
  package.
\<close>

definition gceStartupScript :: "string \<Rightarrow> string" where
  "gceStartupScript key =
     ''#!/usr/bin/env bash'' @ [CHR 0x0A]
     @ ''cat > ~travis/.ssh/authorized_keys <<EOF'' @ [CHR 0x0A]
     @ key @ [CHR 0x0A]
     @ ''EOF'' @ [CHR 0x0A]"

definition DevstorageFullControlScope :: string where
  "DevstorageFullControlScope = ''https://www.googleapis.com/auth/devstorage.full_control''"

definition ComputeScope :: string where
  "ComputeScope = ''https://www.googleapis.com/auth/compute''"

text \<open>
  The struct literal \<^verbatim>\<open>inst := &compute.Instance{...}\<close> of \<^verbatim>\<open>Start\<close>, field by field.
  \<open>img\<close> is the selected image, \<open>uuid\<close> the string of \<^verbatim>\<open>uuid.NewUUID()\<close>. The access
  config's \<^verbatim>\<open>NatIP\<close> is not set in the literal and so is the empty string.
\<close>

definition newInstance ::
  "GCEProvider \<Rightarrow> StartAttributes \<Rightarrow> Image \<Rightarrow> string \<Rightarrow> ComputeInstance" where
  "newInstance p startAttributes img uuid =
     \<lparr> ci_Description = ''Travis CI '' @ Language startAttributes @ '' test VM'',
       ci_Disks =
         [\<lparr> ad_Type = ''PERSISTENT'',
            ad_Mode = ''READ_WRITE'',
            ad_Boot = True,
            ad_AutoDelete = True,
            ad_InitializeParams =
              \<lparr> ip_SourceImage = img_SelfLink img,
                ip_DiskType = ic_DiskType (p_ic p),
                ip_DiskSizeGb = ic_DiskSize (p_ic p) \<rparr> \<rparr>],
       ci_Scheduling = \<lparr> sch_Preemptible = True \<rparr>,
       ci_MachineType = ic_MachineType_SelfLink (p_ic p),
       ci_Name = ''testing-gce-'' @ uuid,
       ci_Metadata =
         [\<lparr> mi_Key = ''startup-script'',
            mi_Value = gceStartupScript (ic_SSHPubKey (p_ic p)) \<rparr>],
       ci_NetworkInterfaces =
         [\<lparr> ni_AccessConfigs =
              [\<lparr> ac_Name = ''AccessConfig brought to you by travis-worker'',
                 ac_Type = ''ONE_TO_ONE_NAT'',
                 ac_NatIP = [] \<rparr>],
            ni_Network = ic_Network_SelfLink (p_ic p) \<rparr>],
       ci_ServiceAccounts =
         [\<lparr> sa_Email = ''default'',
            sa_Scopes =
              [''https://www.googleapis.com/auth/userinfo.email'',
               DevstorageFullControlScope,
               ComputeScope] \<rparr>],
       ci_Tags = [''testing'', Language startAttributes] \<rparr>"

text \<open>
  The poll loop and the \<^verbatim>\<open>select\<close> that waits for it, in \<^verbatim>\<open>Start\<close> and in \<^verbatim>\<open>Stop\<close>:
  \<^verbatim>\<open>
  go func() {
      for {
          newOp, err := client.ZoneOperations.Get(projectID, zone, op.Name).Do()
          if err != nil { errChan <- err; return }
          if newOp.Status == "DONE" {
              if newOp.Error != nil { errChan <- &gceOpError{Err: newOp.Error}; return }
              instanceReady <- inst        // Stop: errChan <- nil
              return
          }
      }
  }()
  select {
  case inst := <-instanceReady: ...
  case err := <-errChan: return nil, err
  case <-ctx.Done(): ... return nil, ctx.Err()
  }
  \<close>
  The channels are unbuffered, so the \<^verbatim>\<open>select\<close> returns with the first of: the
  background task's one send, or the context being done. The context is a function
  \<open>ctx\<close>: \<open>ctx n = Some e\<close> says that, when \<open>n\<close> polls have been answered and before the
  outcome of the next one is sent on a channel, the \<^verbatim>\<open>select\<close> takes \<^verbatim>\<open><-ctx.Done()\<close>
  and \<^verbatim>\<open>ctx.Err()\<close> is \<open>e\<close>; \<open>ctx n = None\<close> says that the context is not done by then.
  The result carries the number of polls answered when the \<^verbatim>\<open>select\<close> returns. A loop
  that polls for ever under a context that is never done has the value \<open>None\<close>.
\<close>

type_synonym Context = "nat \<Rightarrow> error option"

datatype selected = Ready | ErrChan error | CtxDone error

partial_function (option) pollSelect ::
  "compute_Service \<Rightarrow> Context \<Rightarrow> string \<Rightarrow> string \<Rightarrow> string \<Rightarrow> nat \<Rightarrow> (nat \<times> selected) option"
  where
  "pollSelect c ctx project zone name n =
     (case ctx n of
        Some ctxErr \<Rightarrow> Some (n, CtxDone ctxErr)
      | None \<Rightarrow>
          (case ZoneOperations_Get c n project zone name of
             Inl err \<Rightarrow> Some (Suc n, ErrChan err)
           | Inr newOp \<Rightarrow>
               if op_Status newOp = ''DONE''
               then (case op_Error newOp of
                       Some errs \<Rightarrow> Some (Suc n, ErrChan (gceOpError errs))
                     | None \<Rightarrow> Some (Suc n, Ready))
               else pollSelect c ctx project zone name (Suc n)))"

text \<open>The requests that change the project, as \<^verbatim>\<open>Start\<close> and \<^verbatim>\<open>Stop\<close> issue them.\<close>

datatype api_request =
    InsertRequest string string ComputeInstance
  | DeleteRequest string string string

text \<open>
  \<^verbatim>\<open>Start\<close>, after the image selection above:
  \<^verbatim>\<open>
  if err != nil { return nil, err }
  inst := &compute.Instance{ ... SourceImage: image.SelfLink ... }
  op, err := p.client.Instances.Insert(p.projectID, p.ic.Zone.Name, inst).Do()
  if err != nil { return nil, err }
  ... poll loop and select ...
  case inst := <-instanceReady:
      return &GCEInstance{client: p.client, provider: p, instance: inst, ic: p.ic,
          authUser: "travis", projectID: p.projectID, imageName: image.Name}, nil
  \<close>
  The result is the list of requests issued, the number of polls answered and what
  \<^verbatim>\<open>Start\<close> returns (\<open>Inl err\<close> stands for \<^verbatim>\<open>nil, err\<close>). The metrics calls and the
  logging are left out: they do not influence what is returned.
\<close>

definition Start ::
  "compute_Service \<Rightarrow> Context \<Rightarrow> GCEProvider \<Rightarrow> StartAttributes
     \<Rightarrow> (api_request list \<times> nat \<times> (error + GCEInstance)) option" where
  "Start c ctx p startAttributes =
     (case selectImage c p startAttributes of
        (_, Some err) \<Rightarrow> Some ([], 0, Inl err)
      | (None, None) \<Rightarrow> Some ([], 0, Inl NilPointerDereference)
      | (Some img, None) \<Rightarrow>
          let inst = newInstance p startAttributes img (NewUUID c);
              request = InsertRequest (p_projectID p) (ic_Zone_Name (p_ic p)) inst
          in (case Instances_Insert c (p_projectID p) (ic_Zone_Name (p_ic p)) inst of
                Inl err \<Rightarrow> Some ([request], 0, Inl err)
              | Inr op \<Rightarrow>
                  (case pollSelect c ctx (p_projectID p) (ic_Zone_Name (p_ic p)) (op_Name op) 0 of
                     None \<Rightarrow> None
                   | Some (n, Ready) \<Rightarrow>
                       Some ([request], n,
                         Inr \<lparr> i_provider = p,
                               i_instance = inst,
                               i_ic = p_ic p,
                               i_authUser = ''travis'',
                               i_projectID = p_projectID p,
                               i_imageName = img_Name img \<rparr>)
                   | Some (n, ErrChan err) \<Rightarrow> Some ([request], n, Inl err)
                   | Some (n, CtxDone err) \<Rightarrow> Some ([request], n, Inl err))))"

subsection \<open>Tearing a VM down: \<^verbatim>\<open>GCEInstance.Stop\<close>\<close>

text \<open>
  \<^verbatim>\<open>
  op, err := i.client.Instances.Delete(i.projectID, i.ic.Zone.Name, i.instance.Name).Do()
  if err != nil { return err }
  ... poll loop (errChan <- nil on DONE without Error) ...
  select {
  case err := <-errChan: return err
  case <-ctx.Done():     return ctx.Err()
  }
  \<close>
  The result is the requests issued, the number of polls answered and the returned error
  (\<open>None\<close> for nil).
\<close>

definition Stop ::
  "compute_Service \<Rightarrow> Context \<Rightarrow> GCEInstance \<Rightarrow> (api_request list \<times> nat \<times> error option) option"
  where
  "Stop c ctx i =
     (let request = DeleteRequest (i_projectID i) (ic_Zone_Name (i_ic i)) (ci_Name (i_instance i))
      in case Instances_Delete c (i_projectID i) (ic_Zone_Name (i_ic i)) (ci_Name (i_instance i)) of
           Inl err \<Rightarrow> Some ([request], 0, Some err)
         | Inr op \<Rightarrow>
             (case pollSelect c ctx (i_projectID i) (ic_Zone_Name (i_ic i)) (op_Name op) 0 of
                None \<Rightarrow> None
              | Some (n, Ready) \<Rightarrow> Some ([request], n, None)
              | Some (n, ErrChan err) \<Rightarrow> Some ([request], n, Some err)
              | Some (n, CtxDone err) \<Rightarrow> Some ([request], n, Some err)))"

text \<open>
  \<open>pending c ctx project zone name k\<close>: after \<open>k\<close> polls the context is not done and the
  \<open>k\<close>-th poll is answered with an operation that is not yet \<^verbatim>\<open>DONE\<close>, so the loop goes
  round once more.
\<close>

definition pending ::
  "compute_Service \<Rightarrow> Context \<Rightarrow> string \<Rightarrow> string \<Rightarrow> string \<Rightarrow> nat \<Rightarrow> bool" where
  "pending c ctx project zone name k =
     (ctx k = None \<and>
      (case ZoneOperations_Get c k project zone name of
         Inl err \<Rightarrow> False
       | Inr newOp \<Rightarrow> op_Status newOp \<noteq> ''DONE''))"

subsection \<open>The VM's data plane: SSH and SFTP\<close>

text \<open>
  What one call of \<^verbatim>\<open>uploadScriptAttempt\<close> or \<^verbatim>\<open>RunScript\<close> gets from the outside:
  the answer to \<^verbatim>\<open>refreshInstance\<close>'s \<^verbatim>\<open>Instances.Get\<close>, and the error (or nil) of
  each library call the function makes. \<open>r_session_Run\<close> is what \<^verbatim>\<open>session.Run\<close>
  returns: nil, an \<open>ExitError\<close>, or another error.
\<close>

record remote =
  r_Instances_Get :: "error + ComputeInstance"
  r_ssh_Dial :: "error option"
  r_sftp_NewClient :: "error option"
  r_sftp_Create :: "error option"
  r_Write :: "error option"
  r_NewSession :: "error option"
  r_RequestPty :: "error option"
  r_session_Run :: "error option"

text \<open>
  The files of the VM as the SFTP server shows them: \<open>vm_home\<close> is the home directory of
  the authenticated user, \<open>vm_files\<close> maps an absolute path to the file's contents. A
  relative SFTP path is resolved against the home directory (\<open>sftp_path\<close>).
  \<^verbatim>\<open>Lstat\<close> answers without error exactly for a path that exists; \<^verbatim>\<open>Create\<close> makes the
  file or truncates it; the one \<^verbatim>\<open>Write\<close> on the fresh file sets its contents.
\<close>

record vm =
  vm_home :: string
  vm_files :: "string \<rightharpoonup> string"

definition sftp_path :: "vm \<Rightarrow> string \<Rightarrow> string" where
  "sftp_path v path = (if take 1 path = ''/'' then path else vm_home v @ ''/'' @ path)"

definition sftp_Lstat :: "vm \<Rightarrow> string \<Rightarrow> error option" where
  "sftp_Lstat v path =
     (case vm_files v (sftp_path v path) of
        Some contents \<Rightarrow> None
      | None \<Rightarrow> Some (External ''file does not exist''))"

definition sftp_Create :: "vm \<Rightarrow> string \<Rightarrow> vm" where
  "sftp_Create v path = v\<lparr> vm_files := (vm_files v)(sftp_path v path \<mapsto> []) \<rparr>"

definition file_Write :: "vm \<Rightarrow> string \<Rightarrow> string \<Rightarrow> vm" where
  "file_Write v path bytes = v\<lparr> vm_files := (vm_files v)(sftp_path v path \<mapsto> bytes) \<rparr>"

text \<open>
  The calls the code makes on the network, in order, with their arguments. \<open>SSHDial\<close>
  carries the network, the address, and the \<^verbatim>\<open>ssh.ClientConfig\<close>: its \<^verbatim>\<open>User\<close> and the
  signers of its \<^verbatim>\<open>Auth\<close>, which the code builds with \<^verbatim>\<open>ssh.PublicKeys\<close> only.
\<close>

datatype event =
    InstancesGet string string string
  | SSHDial string string string "string list"
  | SftpNewClient
  | SftpLstat string
  | SftpCreate string
  | FileWrite string
  | NewSession
  | RequestPty string nat nat
  | SessionRun string

text \<open>
  \<^verbatim>\<open>
  func (i *GCEInstance) refreshInstance() error {
      inst, err := i.client.Instances.Get(i.projectID, i.ic.Zone.Name, i.instance.Name).Do()
      if err != nil { return err }
      i.instance = inst
      return nil
  }
  func (i *GCEInstance) getIP() string {
      for _, ni := range i.instance.NetworkInterfaces {
          if ni.AccessConfigs == nil { continue }
          for _, ac := range ni.AccessConfigs {
              if ac.NatIP != "" { return ac.NatIP }
          }
      }
      return ""
  }
  \<close>
  \<open>firstNatIP\<close> is the inner loop: the first non-empty \<^verbatim>\<open>NatIP\<close>, or the empty string
  when the loop falls through.
\<close>

definition refreshInstance :: "remote \<Rightarrow> GCEInstance \<Rightarrow> GCEInstance \<times> error option" where
  "refreshInstance r i =
     (case r_Instances_Get r of
        Inl err \<Rightarrow> (i, Some err)
      | Inr inst \<Rightarrow> (i\<lparr> i_instance := inst \<rparr>, None))"

fun firstNatIP :: "AccessConfig list \<Rightarrow> string" where
  "firstNatIP [] = []"
| "firstNatIP (ac # acs) = (if ac_NatIP ac \<noteq> [] then ac_NatIP ac else firstNatIP acs)"

fun getIP_loop :: "NetworkInterface list \<Rightarrow> string" where
  "getIP_loop [] = []"
| "getIP_loop (ni # nis) =
     (if firstNatIP (ni_AccessConfigs ni) \<noteq> [] then firstNatIP (ni_AccessConfigs ni)
      else getIP_loop nis)"

definition getIP :: "GCEInstance \<Rightarrow> string" where
  "getIP i = getIP_loop (ci_NetworkInterfaces (i_instance i))"

text \<open>
  \<^verbatim>\<open>
  func (i *GCEInstance) sshClient() (*ssh.Client, error) {
      i.refreshInstance()
      ipAddr := i.getIP()
      if ipAddr == "" { return nil, gceMissingIPAddressError }
      return ssh.Dial("tcp", fmt.Sprintf("%s:22", ipAddr), &ssh.ClientConfig{
          User: i.authUser,
          Auth: []ssh.AuthMethod{ ssh.PublicKeys(i.ic.SSHKeySigner) },
      })
  }
  \<close>
  The error of \<^verbatim>\<open>refreshInstance\<close> is dropped, as in the source. The result is the
  client or the error, the instance as the call leaves it, and the calls made.
\<close>

definition sshClient :: "remote \<Rightarrow> GCEInstance \<Rightarrow> (error + unit) \<times> GCEInstance \<times> event list" where
  "sshClient r i =
     (let refresh = InstancesGet (i_projectID i) (ic_Zone_Name (i_ic i)) (ci_Name (i_instance i));
          i' = fst (refreshInstance r i);
          ipAddr = getIP i'
      in if ipAddr = [] then (Inl gceMissingIPAddressError, i', [refresh])
         else
           let dial = SSHDial ''tcp'' (ipAddr @ '':22'') (i_authUser i') [ic_SSHKeySigner (i_ic i')]
           in (case r_ssh_Dial r of
                 Some err \<Rightarrow> (Inl err, i', [refresh, dial])
               | None \<Rightarrow> (Inr (), i', [refresh, dial])))"

text \<open>
  \<^verbatim>\<open>
  func (i *GCEInstance) uploadScriptAttempt(ctx gocontext.Context, script []byte) error {
      client, err := i.sshClient()
      if err != nil { return err }
      defer client.Close()
      sftp, err := sftp.NewClient(client)
      if err != nil { return err }
      defer sftp.Close()
      _, err = sftp.Lstat("build.sh")
      if err == nil { return ErrStaleVM }
      f, err := sftp.Create("build.sh")
      if err != nil { return err }
      if _, err := f.Write(script); err != nil { return err }
      return nil
  }
  \<close>
  The state is the instance and the VM's files; the result is the returned error, the
  state the call leaves, and the calls made.
\<close>

definition uploadScriptAttempt ::
  "remote \<Rightarrow> string \<Rightarrow> GCEInstance \<times> vm \<Rightarrow> error option \<times> (GCEInstance \<times> vm) \<times> event list"
  where
  "uploadScriptAttempt r script s =
     (case sshClient r (fst s) of
        (Inl err, i', evs) \<Rightarrow> (Some err, (i', snd s), evs)
      | (Inr client, i', evs) \<Rightarrow>
          (case r_sftp_NewClient r of
             Some err \<Rightarrow> (Some err, (i', snd s), evs @ [SftpNewClient])
           | None \<Rightarrow>
               (case sftp_Lstat (snd s) ''build.sh'' of
                  None \<Rightarrow>
                    (Some ErrStaleVM, (i', snd s), evs @ [SftpNewClient, SftpLstat ''build.sh''])
                | Some lstatErr \<Rightarrow>
                    (case r_sftp_Create r of
                       Some err \<Rightarrow>
                         (Some err, (i', snd s),
                          evs @ [SftpNewClient, SftpLstat ''build.sh'', SftpCreate ''build.sh''])
                     | None \<Rightarrow>
                         (case r_Write r of
                            Some err \<Rightarrow>
                              (Some err, (i', sftp_Create (snd s) ''build.sh''),
                               evs @ [SftpNewClient, SftpLstat ''build.sh'',
                                      SftpCreate ''build.sh'', FileWrite script])
                          | None \<Rightarrow>
                              (None,
                               (i', file_Write (sftp_Create (snd s) ''build.sh'') ''build.sh'' script),
                               evs @ [SftpNewClient, SftpLstat ''build.sh'',
                                      SftpCreate ''build.sh'', FileWrite script]))))))"

text \<open>
  \<^verbatim>\<open>
  func (i *GCEInstance) UploadScript(ctx gocontext.Context, script []byte) error {
      uploadedChan := make(chan bool)
      var uploadErr error = nil
      go func() {
          for {
              err := i.uploadScriptAttempt(ctx, script)
              if err == nil { uploadedChan <- true }
              uploadErr = err
          }
      }()
      select {
      case <-uploadedChan: return nil
      case <-ctx.Done():   return uploadErr
      }
  }
  \<close>
  \<open>rs n\<close> is what the outside answers during the \<open>n\<close>-th attempt (counted from 0).
  \<open>ctx n = Some e\<close> says that the \<^verbatim>\<open>select\<close> takes \<^verbatim>\<open><-ctx.Done()\<close> when \<open>n\<close> attempts
  have run and stored their error in \<open>uploadErr\<close>, before the next attempt has sent on
  \<open>uploadedChan\<close>. The loop state is the instance, the VM's files and \<open>uploadErr\<close>. The
  result is the returned error (\<open>None\<close> for nil), the state, and the number of attempts
  run by then; \<open>None\<close> is a call that never returns: every attempt fails and the
  context is never done.
\<close>

partial_function (option) uploadSelect ::
  "(nat \<Rightarrow> remote) \<Rightarrow> Context \<Rightarrow> string \<Rightarrow> nat \<Rightarrow> (GCEInstance \<times> vm) \<times> error option
     \<Rightarrow> (error option \<times> (GCEInstance \<times> vm) \<times> nat) option" where
  "uploadSelect rs ctx script n st =
     (case ctx n of
        Some ctxErr \<Rightarrow> Some (snd st, fst st, n)
      | None \<Rightarrow>
          (case uploadScriptAttempt (rs n) script (fst st) of
             (None, s', evs) \<Rightarrow> Some (None, s', Suc n)
           | (Some err, s', evs) \<Rightarrow> uploadSelect rs ctx script (Suc n) (s', Some err)))"

definition UploadScript ::
  "(nat \<Rightarrow> remote) \<Rightarrow> Context \<Rightarrow> string \<Rightarrow> GCEInstance \<times> vm
     \<Rightarrow> (error option \<times> (GCEInstance \<times> vm) \<times> nat) option" where
  "UploadScript rs ctx script s = uploadSelect rs ctx script 0 (s, None)"

text \<open>
  \<^verbatim>\<open>
  func (i *GCEInstance) RunScript(ctx gocontext.Context, output io.WriteCloser) (*RunResult, error) {
      client, err := i.sshClient()
      if err != nil { return &RunResult{Completed: false}, err }
      defer client.Close()
      session, err := client.NewSession()
      if err != nil { return &RunResult{Completed: false}, err }
      defer session.Close()
      err = session.RequestPty("xterm", 80, 40, ssh.TerminalModes{})
      if err != nil { return &RunResult{Completed: false}, err }
      session.Stdout = output
      session.Stderr = output
      err = session.Run("bash ~/build.sh")
      if err == nil { return &RunResult{Completed: true, ExitCode: 0}, nil }
      switch err := err.(type) {
      case *ssh.ExitError:
          return &RunResult{Completed: true, ExitCode: uint8(err.ExitStatus())}, nil
      default:
          return &RunResult{Completed: false}, err
      }
  }
  \<close>
  \<^verbatim>\<open>uint8(n)\<close> of a Go \<^verbatim>\<open>int\<close> keeps the low 8 bits: \<^term>\<open>word_of_int n :: 8 word\<close>. A
  field left out of a struct literal is zero. The bytes written to \<open>output\<close> are not
  modelled.
\<close>

definition failed :: RunResult where
  "failed = \<lparr> Completed = False, ExitCode = 0 \<rparr>"

definition RunScript ::
  "remote \<Rightarrow> GCEInstance \<Rightarrow> (RunResult \<times> error option) \<times> GCEInstance \<times> event list" where
  "RunScript r i =
     (case sshClient r i of
        (Inl err, i', evs) \<Rightarrow> ((failed, Some err), i', evs)
      | (Inr client, i', evs) \<Rightarrow>
          (case r_NewSession r of
             Some err \<Rightarrow> ((failed, Some err), i', evs @ [NewSession])
           | None \<Rightarrow>
               (case r_RequestPty r of
                  Some err \<Rightarrow>
                    ((failed, Some err), i', evs @ [NewSession, RequestPty ''xterm'' 80 40])
                | None \<Rightarrow>
                    (let evs' = evs @ [NewSession, RequestPty ''xterm'' 80 40,
                                       SessionRun ''bash ~/build.sh'']
                     in case r_session_Run r of
                          None \<Rightarrow> ((\<lparr> Completed = True, ExitCode = 0 \<rparr>, None), i', evs')
                        | Some (ExitError status) \<Rightarrow>
                            ((\<lparr> Completed = True, ExitCode = word_of_int status \<rparr>, None), i', evs')
                        | Some err \<Rightarrow> ((failed, Some err), i', evs')))))"


text \<open>
  \<open>hasNatIP inst\<close>: some network interface of the VM record carries an access config
  with a non-empty NAT IP address.
\<close>

definition hasNatIP :: "ComputeInstance \<Rightarrow> bool" where
  "hasNatIP inst =
     (\<exists>ni \<in> set (ci_NetworkInterfaces inst). \<exists>ac \<in> set (ni_AccessConfigs ni). ac_NatIP ac \<noteq> [])"

text \<open>
  What \<^verbatim>\<open>session.Run\<close> of the \<^verbatim>\<open>ssh\<close> package returns when the remote command exits
  with status \<open>n\<close>: nil for status 0, an \<^verbatim>\<open>*ssh.ExitError\<close> with the status otherwise.
\<close>

definition session_Run_exit :: "int \<Rightarrow> error option" where
  "session_Run_exit n = (if n = 0 then None else Some (ExitError n))"

subsection \<open>The entry point: \<^verbatim>\<open>main\<close> and \<^verbatim>\<open>runWorker\<close>\<close>

text \<open>
  \<^verbatim>\<open>
  func main() {
      app := cli.NewApp()
      ...
      app.Action = runWorker
      app.Run(os.Args)
  }
  func runWorker(c *cli.Context) {
      ...
      if config.LibratoEmail != "" && config.LibratoToken != "" && config.LibratoSource != "" {
          ... Info("starting librato metrics reporter"); go librato.Librato(...)
      } else {
          ... Info("starting logger metrics reporter"); go metrics.Log(...)
      }
      amqpConn, err := amqp.Dial(config.AmqpURI)
      if err != nil { ... Error("couldn't connect to AMQP"); return }
      ... Debug("connected to AMQP")
      generator := lib.NewBuildScriptGenerator(config.BuildAPIURI)
      provider, err := backend.NewProvider(config.ProviderName, config.ProviderConfig)
      if err != nil { ... Error("couldn't create backend provider"); return }
      pool := &lib.ProcessorPool{...}
      ... go func() { <-signalChan; ... pool.GracefulShutdown() }()
      pool.Run(config.PoolSize, config.QueueName)
      err = amqpConn.Close()
      if err != nil { ... Error("couldn't close AMQP connection cleanly"); return }
  }
  \<close>
  The outside is: whether the three Librato settings are all non-empty, the errors of
  \<^verbatim>\<open>amqp.Dial\<close>, \<^verbatim>\<open>backend.NewProvider\<close> and \<^verbatim>\<open>amqpConn.Close\<close>, and whether
  \<^verbatim>\<open>pool.Run\<close> returns (it does once the processors have exited). A Go function ends by
  returning, by \<^verbatim>\<open>os.Exit(n)\<close>, or not at all; a process whose \<^verbatim>\<open>main\<close> returns exits
  with status 0, and \<^verbatim>\<open>os.Exit(n)\<close> exits with status \<open>n\<close>.
\<close>

record worker_io =
  w_librato :: bool
  w_amqp_Dial :: "error option"
  w_NewProvider :: "error option"
  w_pool_Run_returns :: bool
  w_amqp_Close :: "error option"

datatype log_level = Debug | Info | Error

datatype worker_event =
    Logged log_level string
  | PoolRun
  | AmqpClose

datatype ending = Returns | OsExit nat | Blocks

definition runWorker :: "worker_io \<Rightarrow> worker_event list \<times> ending" where
  "runWorker io =
     (let evs1 = [Logged Debug ''read config'',
                  Logged Info (if w_librato io then ''starting librato metrics reporter''
                               else ''starting logger metrics reporter'')]
      in case w_amqp_Dial io of
           Some err \<Rightarrow> (evs1 @ [Logged Error ''couldn't connect to AMQP''], Returns)
         | None \<Rightarrow>
             (let evs2 = evs1 @ [Logged Debug ''connected to AMQP'']
              in case w_NewProvider io of
                   Some err \<Rightarrow> (evs2 @ [Logged Error ''couldn't create backend provider''], Returns)
                 | None \<Rightarrow>
                     if \<not> w_pool_Run_returns io then (evs2 @ [PoolRun], Blocks)
                     else
                       (case w_amqp_Close io of
                          Some err \<Rightarrow>
                            (evs2 @ [PoolRun, AmqpClose,
                                     Logged Error ''couldn't close AMQP connection cleanly''],
                             Returns)
                        | None \<Rightarrow> (evs2 @ [PoolRun, AmqpClose], Returns))))"

text \<open>
  \<^verbatim>\<open>main\<close> runs \<^verbatim>\<open>runWorker\<close> as the application's action and returns; the error
  that \<^verbatim>\<open>app.Run\<close> may return is dropped, and \<^verbatim>\<open>main\<close> has no other statement. The
  result is what was logged and done, and the exit status of the process (\<open>None\<close> while it
  runs for ever).
\<close>

definition main :: "worker_io \<Rightarrow> worker_event list \<times> nat option" where
  "main io =
     (case runWorker io of
        (evs, Returns) \<Rightarrow> (evs, Some 0)
      | (evs, OsExit n) \<Rightarrow> (evs, Some n)
      | (evs, Blocks) \<Rightarrow> (evs, None))"

subsection \<open>The candidate order as the specification words it\<close>

text \<open>
  The specification's order of candidates: the mapped language if the job's language has a
  mapping, then the job's language, then the default language. It is compared with
  \<open>candidateLangs\<close>, the order of the code.
\<close>

definition spec_candidateLangs :: "GCEProvider \<Rightarrow> StartAttributes \<Rightarrow> string list" where
  "spec_candidateLangs p startAttributes =
     (case p_languageMappings p (Language startAttributes) of
        Some lang \<Rightarrow> [lang]
      | None \<Rightarrow> [])
     @ [Language startAttributes, p_defaultLanguage p]"

subsection \<open>Concrete projects, instances and contexts\<close>

text \<open>
  A project that holds the images \<open>available\<close>. It answers the filter that
  \<open>gceImagesFilter\<close> builds for each of \<open>languages\<close> as the API documents it: the regular
  expression \<^verbatim>\<open>^travis-ci-<language>.+\<close> has to match the whole name, which for a language
  of letters and digits says that the name starts with \<^verbatim>\<open>travis-ci-<language>\<close> and goes on
  for at least one more character. Any other filter finds nothing. Insert and delete
  requests are accepted with the operations \<open>boot\<close> and \<open>teardown\<close>, and \<open>polls\<close> answers
  the polls.
\<close>

definition matchesLanguage :: "string \<Rightarrow> string \<Rightarrow> bool" where
  "matchesLanguage language name =
     (prefix (''travis-ci-'' @ language) name \<and> length (''travis-ci-'' @ language) < length name)"

definition gce_project ::
  "Image list \<Rightarrow> string list \<Rightarrow> (nat \<Rightarrow> error + Operation) \<Rightarrow> compute_Service" where
  "gce_project available languages polls =
     \<lparr> Images_List = (\<lambda>projectID flt.
         case filter (\<lambda>language. gceImagesFilter language = flt) languages of
           [] \<Rightarrow> Inr []
         | language # _ \<Rightarrow> Inr (filter (\<lambda>img. matchesLanguage language (img_Name img)) available)),
       Instances_Insert = (\<lambda>projectID zone inst.
         Inr \<lparr> op_Name = ''boot'', op_Status = ''PENDING'', op_Error = None \<rparr>),
       Instances_Delete = (\<lambda>projectID zone name.
         Inr \<lparr> op_Name = ''teardown'', op_Status = ''PENDING'', op_Error = None \<rparr>),
       ZoneOperations_Get = (\<lambda>n projectID zone name. polls n),
       NewUUID = ''0d3ee4b0-5a1c-11e5-9a0f-0242ac110002'' \<rparr>"

definition image_named :: "string \<Rightarrow> Image" where
  "image_named name =
     \<lparr> img_Name = name, img_SelfLink = ''projects/travis/global/images/'' @ name \<rparr>"

definition example_ic :: gceInstanceConfig where
  "example_ic =
     \<lparr> ic_MachineType_SelfLink = ''zones/us-central1-a/machineTypes/n1-standard-2'',
       ic_Zone_Name = ''us-central1-a'',
       ic_Network_SelfLink = ''global/networks/default'',
       ic_DiskType = ''zones/us-central1-a/diskTypes/pd-standard'',
       ic_DiskSize = 20,
       ic_SSHKeySigner = ''operator-key'',
       ic_SSHPubKey = ''ssh-rsa AAAAB3Nza operator'' \<rparr>"

definition provider_with :: "(string \<rightharpoonup> string) \<Rightarrow> GCEProvider" where
  "provider_with mappings =
     \<lparr> p_projectID = ''travis'',
       p_ic = example_ic,
       p_defaultLanguage = ''minimal'',
       p_languageMappings = mappings \<rparr>"

text \<open>The project and provider of the specification's image-selection example.\<close>

definition py_images :: "Image list" where
  "py_images =
     [image_named ''travis-ci-python-1'', image_named ''travis-ci-python-2'',
      image_named ''travis-ci-minimal-9'']"

definition py_project :: compute_Service where
  "py_project =
     gce_project py_images [''py'', ''python'', ''minimal'']
       (\<lambda>n. Inr \<lparr> op_Name = ''boot'', op_Status = ''DONE'', op_Error = None \<rparr>)"

definition py_provider :: GCEProvider where
  "py_provider = provider_with [''py'' \<mapsto> ''python'']"

text \<open>
  A project with an image for the language \<^verbatim>\<open>rb\<close> itself and one for the language
  \<^verbatim>\<open>ruby\<close> that \<^verbatim>\<open>rb\<close> is mapped to.
\<close>

definition rb_project :: compute_Service where
  "rb_project =
     gce_project [image_named ''travis-ci-rb-1'', image_named ''travis-ci-ruby-1'']
       [''rb'', ''ruby'', ''minimal'']
       (\<lambda>n. Inr \<lparr> op_Name = ''boot'', op_Status = ''DONE'', op_Error = None \<rparr>)"

definition rb_provider :: GCEProvider where
  "rb_provider = provider_with [''rb'' \<mapsto> ''ruby'']"

text \<open>A project without images; one whose operations are done at the third poll.\<close>

definition empty_project :: compute_Service where
  "empty_project = gce_project [] [''ruby'', ''minimal''] (\<lambda>n. Inl (External ''unreachable''))"

definition slow_project :: compute_Service where
  "slow_project =
     gce_project py_images [''py'', ''python'', ''minimal'']
       (\<lambda>n. Inr \<lparr> op_Name = ''boot'',
                  op_Status = (if n < 2 then ''RUNNING'' else ''DONE''),
                  op_Error = None \<rparr>)"

text \<open>A project whose first poll fails in transport.\<close>

definition flaky_project :: compute_Service where
  "flaky_project =
     gce_project py_images [''py'', ''python'', ''minimal'']
       (\<lambda>n. Inl (External ''connection reset by peer''))"

text \<open>A project whose operations end with two sub-errors.\<close>

definition quota_errors :: "OperationErrorErrors list" where
  "quota_errors =
     [\<lparr> oe_Code = ''QUOTA_EXCEEDED'', oe_Location = ''us-central1-a'',
        oe_Message = ''Quota CPUS exceeded'' \<rparr>,
      \<lparr> oe_Code = ''RESOURCE_IN_USE'', oe_Location = ''disk-1'',
        oe_Message = ''The disk is in use'' \<rparr>]"

definition failing_project :: compute_Service where
  "failing_project =
     gce_project py_images [''py'', ''python'', ''minimal'']
       (\<lambda>n. Inr \<lparr> op_Name = ''teardown'', op_Status = ''DONE'',
                  op_Error = Some quota_errors \<rparr>)"

text \<open>Contexts: never done, cancelled from the start, deadline passed after one poll.\<close>

definition background :: Context where
  "background = (\<lambda>n. None)"

definition cancelled :: Context where
  "cancelled = (\<lambda>n. Some Canceled)"

definition deadline_after_1 :: Context where
  "deadline_after_1 = (\<lambda>n. if n < 1 then None else Some DeadlineExceeded)"

text \<open>
  The instance as \<^verbatim>\<open>Start\<close> returns it for a job of language \<^verbatim>\<open>py\<close>: its record is the
  request, whose access config has no NAT IP yet. \<open>booted_record\<close> is the record the API
  gives once the VM has an address.
\<close>

definition py_instance :: GCEInstance where
  "py_instance =
     \<lparr> i_provider = py_provider,
       i_instance =
         newInstance py_provider \<lparr> Language = ''py'' \<rparr> (image_named ''travis-ci-python-2'')
           (NewUUID py_project),
       i_ic = example_ic,
       i_authUser = ''travis'',
       i_projectID = ''travis'',
       i_imageName = ''travis-ci-python-2'' \<rparr>"

definition booted_record :: ComputeInstance where
  "booted_record =
     (i_instance py_instance)
       \<lparr> ci_NetworkInterfaces :=
           [\<lparr> ni_AccessConfigs =
                [\<lparr> ac_Name = ''AccessConfig brought to you by travis-worker'',
                   ac_Type = ''ONE_TO_ONE_NAT'',
                   ac_NatIP = ''203.0.113.7'' \<rparr>],
              ni_Network = ''global/networks/default'' \<rparr>] \<rparr>"

text \<open>
  The outside during one call: every library call succeeds, the refresh answers
  \<open>record\<close>, and the remote command ends as \<open>run\<close> says.
\<close>

definition remote_ok :: "error + ComputeInstance \<Rightarrow> error option \<Rightarrow> remote" where
  "remote_ok record run =
     \<lparr> r_Instances_Get = record,
       r_ssh_Dial = None,
       r_sftp_NewClient = None,
       r_sftp_Create = None,
       r_Write = None,
       r_NewSession = None,
       r_RequestPty = None,
       r_session_Run = run \<rparr>"

text \<open>A fresh VM, and one that already holds a job's script.\<close>

definition fresh_vm :: vm where
  "fresh_vm = \<lparr> vm_home = ''/home/travis'', vm_files = Map.empty \<rparr>"

definition stale_vm :: vm where
  "stale_vm =
     \<lparr> vm_home = ''/home/travis'',
       vm_files = [''/home/travis/build.sh'' \<mapsto> ''echo previous job''] \<rparr>"

text \<open>Start-ups: all well, the message bus unreachable, the provider misconfigured.\<close>

definition io_clean :: worker_io where
  "io_clean =
     \<lparr> w_librato = False, w_amqp_Dial = None, w_NewProvider = None,
       w_pool_Run_returns = True, w_amqp_Close = None \<rparr>"

definition io_no_bus :: worker_io where
  "io_no_bus = io_clean \<lparr> w_amqp_Dial := Some (External ''dial tcp: connection refused'') \<rparr>"

definition io_bad_config :: worker_io where
  "io_bad_config = io_clean \<lparr> w_NewProvider := Some (Errorf ''mising PROJECT_ID'') \<rparr>"

section \<open>Properties\<close>

subsection \<open>Image selection\<close>

lemma imageNames_of_fold:
  "fold (\<lambda>img names. names @ [img_Name img]) items acc = acc @ map img_Name items"
  by (induction items arbitrary: acc) simp_all

lemma imageNames_of_map: "imageNames_of items = map img_Name items"
  by (simp add: imageNames_of_def imageNames_of_fold)

lemma imagesByName_fold_other:
  "k \<notin> img_Name ` set items \<Longrightarrow> fold (\<lambda>img m. m(img_Name img \<mapsto> img)) items m k = m k"
  by (induction items arbitrary: m) auto

lemma imagesByName_fold_found:
  "k \<in> img_Name ` set items \<Longrightarrow>
     \<exists>img \<in> set items. img_Name img = k
        \<and> fold (\<lambda>img m. m(img_Name img \<mapsto> img)) items m k = Some img"
proof (induction items arbitrary: m)
  case Nil
  then show ?case by simp
next
  case (Cons x xs)
  let ?f = "\<lambda>img m. m(img_Name img \<mapsto> img)"
  have step: "fold ?f (x # xs) m k = fold ?f xs (m(img_Name x \<mapsto> x)) k" by simp
  show ?case
  proof (cases "k \<in> img_Name ` set xs")
    case True
    from Cons.IH [OF True, of "m(img_Name x \<mapsto> x)"]
    obtain img where
      "img \<in> set xs" "img_Name img = k" "fold ?f xs (m(img_Name x \<mapsto> x)) k = Some img"
      by blast
    then have "img \<in> set (x # xs) \<and> img_Name img = k \<and> fold ?f (x # xs) m k = Some img"
      using step by simp
    then show ?thesis by blast
  next
    case False
    with Cons.prems have kx: "img_Name x = k" by auto
    from False have "fold ?f xs (m(img_Name x \<mapsto> x)) k = (m(img_Name x \<mapsto> x)) k"
      by (rule imagesByName_fold_other)
    also have "\<dots> = Some x" using kx by simp
    finally have "x \<in> set (x # xs) \<and> img_Name x = k \<and> fold ?f (x # xs) m k = Some x"
      using step kx by simp
    then show ?thesis by blast
  qed
qed

text \<open>The last element of the sorted names is one of the names and is the greatest.\<close>

lemma last_sort_greatest:
  fixes xs :: "string list"
  assumes "xs \<noteq> []"
  shows "sort xs ! (length (sort xs) - 1) \<in> set xs
    \<and> (\<forall>x \<in> set xs. x \<le> sort xs ! (length (sort xs) - 1))"
proof -
  let ?s = "sort xs"
  have ne: "?s \<noteq> []" using assms by (metis length_sort length_0_conv)
  have l: "?s ! (length ?s - 1) = last ?s" using ne by (simp add: last_conv_nth)
  have "last ?s \<in> set ?s" using ne by (rule last_in_set)
  then have a: "last ?s \<in> set xs" by simp
  have "\<And>x. x \<in> set ?s \<Longrightarrow> x \<le> last ?s"
  proof -
    fix x assume "x \<in> set ?s"
    then obtain j where j: "j < length ?s" "?s ! j = x" by (metis in_set_conv_nth)
    have "?s ! j \<le> ?s ! (length ?s - 1)"
      by (rule sorted_nth_mono) (use j in auto)
    then show "x \<le> last ?s" using j l by simp
  qed
  then have "\<forall>x \<in> set xs. x \<le> last ?s" by simp
  with a l show ?thesis by simp
qed

lemma imageForLanguage_greatest:
  assumes "Images_List c (p_projectID p) (gceImagesFilter language) = Inr items"
    and "items \<noteq> []"
  shows "\<exists>img. imageForLanguage c p language = Inr (Some img) \<and> img \<in> set items \<and>
             (\<forall>other \<in> set items. img_Name other \<le> img_Name img)"
proof -
  let ?names = "map img_Name items"
  let ?top = "sort ?names ! (length (sort ?names) - 1)"
  have ne: "?names \<noteq> []" using assms(2) by simp
  from last_sort_greatest [OF ne]
  have top_in: "?top \<in> img_Name ` set items" and top_max: "\<forall>x \<in> set ?names. x \<le> ?top"
    by auto
  from imagesByName_fold_found [OF top_in, of Map.empty]
  obtain img where img:
    "img \<in> set items" "img_Name img = ?top" "imagesByName_of items ?top = Some img"
    unfolding imagesByName_of_def by blast
  have "imageForLanguage c p language = Inr (Some img)"
    using assms img(3) by (simp add: imageForLanguage_def imageNames_of_map Let_def)
  moreover have "\<forall>other \<in> set items. img_Name other \<le> img_Name img"
    using top_max img(2) by simp
  ultimately show ?thesis using img(1) by blast
qed

lemma py_lookup:
  "imageForLanguage py_project py_provider ''py''
     = Inr (Some (image_named ''travis-ci-python-2''))"
  by (simp add: imageForLanguage_def py_project_def gce_project_def py_provider_def
      provider_with_def gceImagesFilter_def py_images_def image_named_def matchesLanguage_def
      imageNames_of_def imagesByName_of_def Let_def)

lemma rb_lookup:
  "imageForLanguage rb_project rb_provider ''rb''
     = Inr (Some (image_named ''travis-ci-rb-1''))"
  "imageForLanguage rb_project rb_provider ''ruby''
     = Inr (Some (image_named ''travis-ci-ruby-1''))"
  by (simp_all add: imageForLanguage_def rb_project_def gce_project_def rb_provider_def
      provider_with_def gceImagesFilter_def image_named_def matchesLanguage_def
      imageNames_of_def imagesByName_of_def Let_def)

text \<open>
  Claim C4, as amended. The code tries the job's language itself first, then the language
  it is mapped to (when \<open>languageMappings\<close> has an entry for it), then the default
  language, and uses the first of them whose lookup succeeds; when none does, the error
  of the last lookup, the default language's, is what remains. The claim puts the mapped
  language before the job's language.
\<close>

theorem selectImage_candidate_order:
  "selectImage c p startAttributes =
     (case imageForLanguage c p (Language startAttributes) of
        Inr img \<Rightarrow> (img, None)
      | Inl err1 \<Rightarrow>
          (case p_languageMappings p (Language startAttributes) of
             Some lang \<Rightarrow>
               (case imageForLanguage c p lang of
                  Inr img \<Rightarrow> (img, None)
                | Inl err2 \<Rightarrow>
                    (case imageForLanguage c p (p_defaultLanguage p) of
                       Inr img \<Rightarrow> (img, None)
                     | Inl err3 \<Rightarrow> (None, Some err3)))
           | None \<Rightarrow>
               (case imageForLanguage c p (p_defaultLanguage p) of
                  Inr img \<Rightarrow> (img, None)
                | Inl err3 \<Rightarrow> (None, Some err3))))"
  by (simp add: selectImage_def candidateLangs_def split: sum.splits option.splits)

text \<open>
  The claim's order fails on a project that has an image for \<^verbatim>\<open>rb\<close> and one for
  \<^verbatim>\<open>ruby\<close>, with \<^verbatim>\<open>rb\<close> mapped to \<^verbatim>\<open>ruby\<close>: the code selects the image of \<^verbatim>\<open>rb\<close>,
  the order of the claim would select the image of \<^verbatim>\<open>ruby\<close>.
\<close>

theorem spec_candidate_order_counterexample:
  "selectImage rb_project rb_provider \<lparr> Language = ''rb'' \<rparr>
     = (Some (image_named ''travis-ci-rb-1''), None)
   \<and> imageLoop rb_project rb_provider
       (spec_candidateLangs rb_provider \<lparr> Language = ''rb'' \<rparr>) (None, None)
     = (Some (image_named ''travis-ci-ruby-1''), None)
   \<and> image_named ''travis-ci-rb-1'' \<noteq> image_named ''travis-ci-ruby-1''"
proof -
  have m: "p_languageMappings rb_provider ''rb'' = Some ''ruby''"
    by (simp add: rb_provider_def provider_with_def)
  have d: "image_named ''travis-ci-rb-1'' \<noteq> image_named ''travis-ci-ruby-1''"
    by (simp add: image_named_def)
  show ?thesis
    using d by (simp add: selectImage_def candidateLangs_def spec_candidateLangs_def rb_lookup m)
qed

text \<open>
  Claim C5. Whenever the listing for a language has at least one image,
  \<open>imageForLanguage\<close> returns one of the listed images, and no listed image has a name
  that is greater in the bytewise lexicographic order. In the specification's example
  (mapping \<^verbatim>\<open>py\<close> to \<^verbatim>\<open>python\<close>, default \<^verbatim>\<open>minimal\<close>, job language \<^verbatim>\<open>py\<close>, images
  \<^verbatim>\<open>travis-ci-python-1\<close>, \<^verbatim>\<open>travis-ci-python-2\<close>, \<^verbatim>\<open>travis-ci-minimal-9\<close>) the selected
  image is \<^verbatim>\<open>travis-ci-python-2\<close>.
\<close>

theorem imageForLanguage_lexicographically_greatest:
  "(Images_List c (p_projectID p) (gceImagesFilter language) = Inr items \<longrightarrow> items \<noteq> [] \<longrightarrow>
      (\<exists>img. imageForLanguage c p language = Inr (Some img) \<and> img \<in> set items \<and>
             (\<forall>other \<in> set items. img_Name other \<le> img_Name img)))
   \<and> selectImage py_project py_provider \<lparr> Language = ''py'' \<rparr>
       = (Some (image_named ''travis-ci-python-2''), None)"
proof -
  have "selectImage py_project py_provider \<lparr> Language = ''py'' \<rparr>
       = (Some (image_named ''travis-ci-python-2''), None)"
    by (simp add: selectImage_def candidateLangs_def py_lookup)
  then show ?thesis using imageForLanguage_greatest by blast
qed

theorem imageForLanguage_lexicographically_greatest_witness:
  "Images_List py_project (p_projectID py_provider) (gceImagesFilter ''python'')
     = Inr [image_named ''travis-ci-python-1'', image_named ''travis-ci-python-2'']
   \<and> (\<exists>img. imageForLanguage py_project py_provider ''python'' = Inr (Some img)
          \<and> img \<in> set [image_named ''travis-ci-python-1'', image_named ''travis-ci-python-2'']
          \<and> (\<forall>other \<in> set [image_named ''travis-ci-python-1'',
                              image_named ''travis-ci-python-2''].
                img_Name other \<le> img_Name img))"
proof -
  have l: "Images_List py_project (p_projectID py_provider) (gceImagesFilter ''python'')
     = Inr [image_named ''travis-ci-python-1'', image_named ''travis-ci-python-2'']"
    by (simp add: py_project_def gce_project_def py_provider_def provider_with_def
        gceImagesFilter_def py_images_def image_named_def matchesLanguage_def)
  show ?thesis
    using l imageForLanguage_lexicographically_greatest [of py_project py_provider "''python''"
        "[image_named ''travis-ci-python-1'', image_named ''travis-ci-python-2'']"]
    by simp
qed

subsection \<open>The poll loop, \<^verbatim>\<open>Start\<close> and \<^verbatim>\<open>Stop\<close>\<close>

lemma pollSelect_pending:
  "pending c ctx proj zone name k \<Longrightarrow>
     pollSelect c ctx proj zone name k = pollSelect c ctx proj zone name (Suc k)"
  by (subst pollSelect.simps) (auto simp: pending_def split: option.splits sum.splits)

lemma pollSelect_run:
  "(\<forall>k<n. pending c ctx proj zone name (i + k)) \<Longrightarrow>
     pollSelect c ctx proj zone name i = pollSelect c ctx proj zone name (i + n)"
proof (induction n arbitrary: i)
  case 0
  then show ?case by simp
next
  case (Suc n)
  have p0: "pending c ctx proj zone name i" using Suc.prems [rule_format, of 0] by simp
  have "\<forall>k<n. pending c ctx proj zone name (Suc i + k)"
    using Suc.prems by (metis Suc_less_eq add_Suc_shift)
  from Suc.IH [OF this] pollSelect_pending [OF p0] show ?case by simp
qed

lemma pollSelect_ctx:
  "ctx n = Some e \<Longrightarrow> pollSelect c ctx proj zone name n = Some (n, CtxDone e)"
  by (subst pollSelect.simps) simp

lemma pollSelect_transport:
  "ctx n = None \<Longrightarrow> ZoneOperations_Get c n proj zone name = Inl err \<Longrightarrow>
     pollSelect c ctx proj zone name n = Some (Suc n, ErrChan err)"
  by (subst pollSelect.simps) simp

lemma pollSelect_op_error:
  "ctx n = None \<Longrightarrow> ZoneOperations_Get c n proj zone name = Inr newOp \<Longrightarrow>
   op_Status newOp = ''DONE'' \<Longrightarrow> op_Error newOp = Some errs \<Longrightarrow>
     pollSelect c ctx proj zone name n = Some (Suc n, ErrChan (gceOpError errs))"
  by (subst pollSelect.simps) simp

lemma pollSelect_ready:
  "ctx n = None \<Longrightarrow> ZoneOperations_Get c n proj zone name = Inr newOp \<Longrightarrow>
   op_Status newOp = ''DONE'' \<Longrightarrow> op_Error newOp = None \<Longrightarrow>
     pollSelect c ctx proj zone name n = Some (Suc n, Ready)"
  by (subst pollSelect.simps) simp

lemma pollSelect_Some_D:
  "pollSelect c ctx proj zone name i = Some y \<Longrightarrow>
     \<exists>n. (\<forall>k<n. pending c ctx proj zone name (i + k))
        \<and> \<not> pending c ctx proj zone name (i + n)
        \<and> pollSelect c ctx proj zone name (i + n) = Some y"
proof (induction rule: pollSelect.raw_induct [rotated 1, consumes 1])
  case (1 pollSelect' c ctx proj zone name i y)
  show ?case
  proof (cases "pending c ctx proj zone name i")
    case False
    have "pollSelect c ctx proj zone name i = Some y"
      using 1(2) False
      by (subst pollSelect.simps) (auto simp: pending_def split: option.splits sum.splits if_splits)
    with False show ?thesis by (intro exI [of _ 0]) simp
  next
    case True
    then have "pollSelect' c ctx proj zone name (Suc i) = Some y"
      using 1(2) by (auto simp: pending_def split: option.splits sum.splits if_splits)
    from 1(1) [OF this] obtain n where n:
      "\<forall>k<n. pending c ctx proj zone name (Suc i + k)"
      "\<not> pending c ctx proj zone name (Suc i + n)"
      "pollSelect c ctx proj zone name (Suc i + n) = Some y"
      by blast
    have "\<forall>k<Suc n. pending c ctx proj zone name (i + k)"
    proof (intro allI impI)
      fix k assume "k < Suc n"
      show "pending c ctx proj zone name (i + k)"
      proof (cases k)
        case 0
        then show ?thesis using True by simp
      next
        case (Suc k')
        then show ?thesis using n(1) \<open>k < Suc n\<close> by simp
      qed
    qed
    with n(2,3) show ?thesis by (intro exI [of _ "Suc n"]) simp
  qed
qed

lemma pollSelect_from_0:
  "(\<forall>k<n. pending c ctx proj zone name k) \<Longrightarrow>
     pollSelect c ctx proj zone name 0 = pollSelect c ctx proj zone name n"
  using pollSelect_run [of n c ctx proj zone name 0] by simp

lemma pollSelect_forever:
  "(\<forall>k. pending c ctx proj zone name k) \<Longrightarrow> pollSelect c ctx proj zone name 0 = None"
proof (rule ccontr)
  assume all: "\<forall>k. pending c ctx proj zone name k"
  assume "pollSelect c ctx proj zone name 0 \<noteq> None"
  then obtain y where "pollSelect c ctx proj zone name 0 = Some y" by blast
  from pollSelect_Some_D [OF this] all show False by auto
qed

lemma pollSelect_Ready_D:
  assumes "pollSelect c ctx proj zone name 0 = Some (m, Ready)"
  shows "\<exists>n newOp. m = Suc n \<and> (\<forall>k<n. pending c ctx proj zone name k) \<and> ctx n = None
     \<and> ZoneOperations_Get c n proj zone name = Inr newOp
     \<and> op_Status newOp = ''DONE'' \<and> op_Error newOp = None"
proof -
  from pollSelect_Some_D [OF assms] obtain n where n:
    "\<forall>k<n. pending c ctx proj zone name k"
    "\<not> pending c ctx proj zone name n"
    "pollSelect c ctx proj zone name n = Some (m, Ready)"
    by auto
  from n(3) have "(case ctx n of
        Some ctxErr \<Rightarrow> Some (n, CtxDone ctxErr)
      | None \<Rightarrow>
          (case ZoneOperations_Get c n proj zone name of
             Inl err \<Rightarrow> Some (Suc n, ErrChan err)
           | Inr newOp \<Rightarrow>
               if op_Status newOp = ''DONE''
               then (case op_Error newOp of
                       Some errs \<Rightarrow> Some (Suc n, ErrChan (gceOpError errs))
                     | None \<Rightarrow> Some (Suc n, Ready))
               else pollSelect c ctx proj zone name (Suc n))) = Some (m, Ready)"
    by (subst (asm) pollSelect.simps) simp
  with n(2) have "ctx n = None \<and> (\<exists>newOp. ZoneOperations_Get c n proj zone name = Inr newOp
     \<and> op_Status newOp = ''DONE'' \<and> op_Error newOp = None) \<and> m = Suc n"
    by (auto simp: pending_def split: option.splits sum.splits if_splits)
  with n(1) show ?thesis by blast
qed

lemma errStr_listed:
  "e \<in> set errs \<Longrightarrow> sublist (errStr e) (strings_Join (map errStr errs) sep)"
proof (induction errs rule: induct_list012)
  case 1
  then show ?case by simp
next
  case (2 x)
  then show ?case by simp
next
  case (3 x y zs)
  show ?case
  proof (cases "e = x")
    case True
    then show ?thesis by (simp add: sublist_append)
  next
    case False
    with 3 have "sublist (errStr e) (strings_Join (map errStr (y # zs)) sep)" by simp
    then show ?thesis by (simp add: sublist_append)
  qed
qed

text \<open>
  Claim C7, as amended. \<^verbatim>\<open>Stop\<close> issues the delete request. When the request fails,
  \<^verbatim>\<open>Stop\<close> returns its error and polls nothing. Otherwise it polls the operation for as
  long as the context is not done and the answers are operations that are not \<^verbatim>\<open>DONE\<close>
  (for ever, when that never ends), and returns: the context's error when the context is
  done first; the poll's own error when a poll fails; a \<open>gceOpError\<close> carrying the
  operation's sub-errors, each of which its message lists, when the operation is \<^verbatim>\<open>DONE\<close>
  with errors; nil when it is \<^verbatim>\<open>DONE\<close> without. It returns nil in that last case only.
\<close>

theorem Stop_outcomes:
  "(Instances_Delete c (i_projectID i) (ic_Zone_Name (i_ic i)) (ci_Name (i_instance i)) = Inl err \<longrightarrow>
      Stop c ctx i
        = Some ([DeleteRequest (i_projectID i) (ic_Zone_Name (i_ic i)) (ci_Name (i_instance i))],
                0, Some err))
   \<and> (Instances_Delete c (i_projectID i) (ic_Zone_Name (i_ic i)) (ci_Name (i_instance i)) = Inr op
       \<and> (\<forall>k<n. pending c ctx (i_projectID i) (ic_Zone_Name (i_ic i)) (op_Name op) k) \<longrightarrow>
        (ctx n = Some ctxErr \<longrightarrow>
           Stop c ctx i
             = Some ([DeleteRequest (i_projectID i) (ic_Zone_Name (i_ic i)) (ci_Name (i_instance i))],
                     n, Some ctxErr))
      \<and> (ctx n = None
           \<and> ZoneOperations_Get c n (i_projectID i) (ic_Zone_Name (i_ic i)) (op_Name op) = Inl err \<longrightarrow>
           Stop c ctx i
             = Some ([DeleteRequest (i_projectID i) (ic_Zone_Name (i_ic i)) (ci_Name (i_instance i))],
                     Suc n, Some err))
      \<and> (ctx n = None
           \<and> ZoneOperations_Get c n (i_projectID i) (ic_Zone_Name (i_ic i)) (op_Name op) = Inr newOp
           \<and> op_Status newOp = ''DONE'' \<and> op_Error newOp = Some errs \<longrightarrow>
           Stop c ctx i
             = Some ([DeleteRequest (i_projectID i) (ic_Zone_Name (i_ic i)) (ci_Name (i_instance i))],
                     Suc n, Some (gceOpError errs))
           \<and> (\<forall>e \<in> set errs. sublist (errStr e) (gceOpError_Error errs)))
      \<and> (ctx n = None
           \<and> ZoneOperations_Get c n (i_projectID i) (ic_Zone_Name (i_ic i)) (op_Name op) = Inr newOp
           \<and> op_Status newOp = ''DONE'' \<and> op_Error newOp = None \<longrightarrow>
           Stop c ctx i
             = Some ([DeleteRequest (i_projectID i) (ic_Zone_Name (i_ic i)) (ci_Name (i_instance i))],
                     Suc n, None)))
   \<and> (Instances_Delete c (i_projectID i) (ic_Zone_Name (i_ic i)) (ci_Name (i_instance i)) = Inr op
       \<and> (\<forall>k. pending c ctx (i_projectID i) (ic_Zone_Name (i_ic i)) (op_Name op) k) \<longrightarrow>
        Stop c ctx i = None)
   \<and> (Stop c ctx i = Some (reqs, m, None) \<longrightarrow>
        (\<exists>op' n' newOp'.
            Instances_Delete c (i_projectID i) (ic_Zone_Name (i_ic i)) (ci_Name (i_instance i)) = Inr op'
          \<and> m = Suc n'
          \<and> (\<forall>k<n'. pending c ctx (i_projectID i) (ic_Zone_Name (i_ic i)) (op_Name op') k)
          \<and> ctx n' = None
          \<and> ZoneOperations_Get c n' (i_projectID i) (ic_Zone_Name (i_ic i)) (op_Name op') = Inr newOp'
          \<and> op_Status newOp' = ''DONE'' \<and> op_Error newOp' = None))"
  (is "?del \<and> ?run \<and> ?forever \<and> ?nil")
proof (intro conjI)
  show ?del by (simp add: Stop_def)
  show ?run
  proof (intro impI, elim conjE)
    assume d: "Instances_Delete c (i_projectID i) (ic_Zone_Name (i_ic i)) (ci_Name (i_instance i)) = Inr op"
      and p: "\<forall>k<n. pending c ctx (i_projectID i) (ic_Zone_Name (i_ic i)) (op_Name op) k"
    note eq = pollSelect_from_0 [OF p]
    show "(ctx n = Some ctxErr \<longrightarrow>
           Stop c ctx i
             = Some ([DeleteRequest (i_projectID i) (ic_Zone_Name (i_ic i)) (ci_Name (i_instance i))],
                     n, Some ctxErr))
      \<and> (ctx n = None
           \<and> ZoneOperations_Get c n (i_projectID i) (ic_Zone_Name (i_ic i)) (op_Name op) = Inl err \<longrightarrow>
           Stop c ctx i
             = Some ([DeleteRequest (i_projectID i) (ic_Zone_Name (i_ic i)) (ci_Name (i_instance i))],
                     Suc n, Some err))
      \<and> (ctx n = None
           \<and> ZoneOperations_Get c n (i_projectID i) (ic_Zone_Name (i_ic i)) (op_Name op) = Inr newOp
           \<and> op_Status newOp = ''DONE'' \<and> op_Error newOp = Some errs \<longrightarrow>
           Stop c ctx i
             = Some ([DeleteRequest (i_projectID i) (ic_Zone_Name (i_ic i)) (ci_Name (i_instance i))],
                     Suc n, Some (gceOpError errs))
           \<and> (\<forall>e \<in> set errs. sublist (errStr e) (gceOpError_Error errs)))
      \<and> (ctx n = None
           \<and> ZoneOperations_Get c n (i_projectID i) (ic_Zone_Name (i_ic i)) (op_Name op) = Inr newOp
           \<and> op_Status newOp = ''DONE'' \<and> op_Error newOp = None \<longrightarrow>
           Stop c ctx i
             = Some ([DeleteRequest (i_projectID i) (ic_Zone_Name (i_ic i)) (ci_Name (i_instance i))],
                     Suc n, None))"
      using d
      by (simp add: Stop_def eq pollSelect_ctx pollSelect_transport pollSelect_op_error
          pollSelect_ready gceOpError_Error_def errStr_listed)
  qed
  show ?forever by (simp add: Stop_def pollSelect_forever)
  show ?nil
  proof
    assume s: "Stop c ctx i = Some (reqs, m, None)"
    then obtain op' where d: "Instances_Delete c (i_projectID i) (ic_Zone_Name (i_ic i)) (ci_Name (i_instance i)) = Inr op'"
      by (cases "Instances_Delete c (i_projectID i) (ic_Zone_Name (i_ic i)) (ci_Name (i_instance i))")
         (auto simp: Stop_def Let_def)
    with s have "pollSelect c ctx (i_projectID i) (ic_Zone_Name (i_ic i)) (op_Name op') 0 = Some (m, Ready)"
      by (auto simp: Stop_def Let_def split: option.splits selected.splits prod.splits)
    from pollSelect_Ready_D [OF this] d
    show "\<exists>op' n' newOp'.
            Instances_Delete c (i_projectID i) (ic_Zone_Name (i_ic i)) (ci_Name (i_instance i)) = Inr op'
          \<and> m = Suc n'
          \<and> (\<forall>k<n'. pending c ctx (i_projectID i) (ic_Zone_Name (i_ic i)) (op_Name op') k)
          \<and> ctx n' = None
          \<and> ZoneOperations_Get c n' (i_projectID i) (ic_Zone_Name (i_ic i)) (op_Name op') = Inr newOp'
          \<and> op_Status newOp' = ''DONE'' \<and> op_Error newOp' = None"
      by blast
  qed
qed

lemma py_instance_fields:
  "i_projectID py_instance = ''travis''"
  "ic_Zone_Name (i_ic py_instance) = ''us-central1-a''"
  "ci_Name (i_instance py_instance) = ''testing-gce-0d3ee4b0-5a1c-11e5-9a0f-0242ac110002''"
  by (simp_all add: py_instance_def example_ic_def newInstance_def py_project_def gce_project_def)

lemma gce_project_simps:
  "Instances_Insert (gce_project available languages polls) projectID zone inst
     = Inr \<lparr> op_Name = ''boot'', op_Status = ''PENDING'', op_Error = None \<rparr>"
  "Instances_Delete (gce_project available languages polls) projectID zone name
     = Inr \<lparr> op_Name = ''teardown'', op_Status = ''PENDING'', op_Error = None \<rparr>"
  "ZoneOperations_Get (gce_project available languages polls) n projectID zone name = polls n"
  "NewUUID (gce_project available languages polls) = ''0d3ee4b0-5a1c-11e5-9a0f-0242ac110002''"
  by (simp_all add: gce_project_def)

text \<open>
  A teardown whose operation is done at the third poll; the same under a deadline that
  passes after the first poll; and a teardown that ends with two sub-errors.
\<close>

theorem Stop_outcomes_witness:
  "Stop slow_project background py_instance
     = Some ([DeleteRequest ''travis'' ''us-central1-a''
                ''testing-gce-0d3ee4b0-5a1c-11e5-9a0f-0242ac110002''], 3, None)
   \<and> Stop slow_project deadline_after_1 py_instance
     = Some ([DeleteRequest ''travis'' ''us-central1-a''
                ''testing-gce-0d3ee4b0-5a1c-11e5-9a0f-0242ac110002''], 1, Some DeadlineExceeded)
   \<and> Stop failing_project background py_instance
     = Some ([DeleteRequest ''travis'' ''us-central1-a''
                ''testing-gce-0d3ee4b0-5a1c-11e5-9a0f-0242ac110002''], 1,
             Some (gceOpError quota_errors))
   \<and> gceOpError_Error quota_errors
     = ''code=QUOTA_EXCEEDED location=us-central1-a message=Quota CPUS exceeded, code=RESOURCE_IN_USE location=disk-1 message=The disk is in use''"
proof (intro conjI)
  let ?op = "\<lparr> op_Name = ''teardown'', op_Status = ''PENDING'', op_Error = None \<rparr>"
  let ?done = "\<lparr> op_Name = ''boot'', op_Status = ''DONE'', op_Error = None \<rparr>"
  let ?bad = "\<lparr> op_Name = ''teardown'', op_Status = ''DONE'', op_Error = Some quota_errors \<rparr>"
  have d: "Instances_Delete slow_project (i_projectID py_instance)
             (ic_Zone_Name (i_ic py_instance)) (ci_Name (i_instance py_instance)) = Inr ?op"
    by (simp add: slow_project_def gce_project_simps)
  have p: "\<forall>k<2. pending slow_project background (i_projectID py_instance)
             (ic_Zone_Name (i_ic py_instance)) (op_Name ?op) k"
    by (simp add: pending_def slow_project_def gce_project_simps background_def)
  have g: "background 2 = None
     \<and> ZoneOperations_Get slow_project 2 (i_projectID py_instance)
         (ic_Zone_Name (i_ic py_instance)) (op_Name ?op) = Inr ?done
     \<and> op_Status ?done = ''DONE'' \<and> op_Error ?done = None"
    by (simp add: slow_project_def gce_project_simps background_def)
  from Stop_outcomes [where c = slow_project and ctx = background and i = py_instance
      and n = 2 and op = ?op and newOp = ?done] d p g
  have "Stop slow_project background py_instance
     = Some ([DeleteRequest (i_projectID py_instance) (ic_Zone_Name (i_ic py_instance))
                (ci_Name (i_instance py_instance))], Suc 2, None)"
    by blast
  then show "Stop slow_project background py_instance
     = Some ([DeleteRequest ''travis'' ''us-central1-a''
                ''testing-gce-0d3ee4b0-5a1c-11e5-9a0f-0242ac110002''], 3, None)"
    by (simp add: py_instance_fields)
  have p1: "\<forall>k<1. pending slow_project deadline_after_1 (i_projectID py_instance)
             (ic_Zone_Name (i_ic py_instance)) (op_Name ?op) k"
    by (simp add: pending_def slow_project_def gce_project_simps deadline_after_1_def)
  have c1: "deadline_after_1 1 = Some DeadlineExceeded" by (simp add: deadline_after_1_def)
  from Stop_outcomes [where c = slow_project and ctx = deadline_after_1 and i = py_instance
      and n = 1 and op = ?op and ctxErr = DeadlineExceeded] d p1 c1
  have "Stop slow_project deadline_after_1 py_instance
     = Some ([DeleteRequest (i_projectID py_instance) (ic_Zone_Name (i_ic py_instance))
                (ci_Name (i_instance py_instance))], 1, Some DeadlineExceeded)"
    by blast
  then show "Stop slow_project deadline_after_1 py_instance
     = Some ([DeleteRequest ''travis'' ''us-central1-a''
                ''testing-gce-0d3ee4b0-5a1c-11e5-9a0f-0242ac110002''], 1, Some DeadlineExceeded)"
    by (simp add: py_instance_fields)
  have d': "Instances_Delete failing_project (i_projectID py_instance)
             (ic_Zone_Name (i_ic py_instance)) (ci_Name (i_instance py_instance)) = Inr ?op"
    by (simp add: failing_project_def gce_project_simps)
  have p0: "\<forall>k<0. pending failing_project background (i_projectID py_instance)
             (ic_Zone_Name (i_ic py_instance)) (op_Name ?op) k"
    by simp
  have g': "background 0 = None
     \<and> ZoneOperations_Get failing_project 0 (i_projectID py_instance)
         (ic_Zone_Name (i_ic py_instance)) (op_Name ?op) = Inr ?bad
     \<and> op_Status ?bad = ''DONE'' \<and> op_Error ?bad = Some quota_errors"
    by (simp add: failing_project_def gce_project_simps background_def)
  from Stop_outcomes [where c = failing_project and ctx = background and i = py_instance
      and n = 0 and op = ?op and newOp = ?bad and errs = quota_errors] d' p0 g'
  have "Stop failing_project background py_instance
     = Some ([DeleteRequest (i_projectID py_instance) (ic_Zone_Name (i_ic py_instance))
                (ci_Name (i_instance py_instance))], Suc 0, Some (gceOpError quota_errors))"
    by blast
  then show "Stop failing_project background py_instance
     = Some ([DeleteRequest ''travis'' ''us-central1-a''
                ''testing-gce-0d3ee4b0-5a1c-11e5-9a0f-0242ac110002''], 1,
             Some (gceOpError quota_errors))"
    by (simp add: py_instance_fields)
  show "gceOpError_Error quota_errors
     = ''code=QUOTA_EXCEEDED location=us-central1-a message=Quota CPUS exceeded, code=RESOURCE_IN_USE location=disk-1 message=The disk is in use''"
    by (simp add: gceOpError_Error_def quota_errors_def errStr_def)
qed

text \<open>
  The claim lets the polling end only with \<^verbatim>\<open>DONE\<close> or with the context, and names three
  results. Here the first poll fails in transport under a context that is never done:
  \<^verbatim>\<open>Stop\<close> returns after one poll, with the poll's error.
\<close>

theorem Stop_poll_failure_counterexample:
  "Stop flaky_project background py_instance
     = Some ([DeleteRequest ''travis'' ''us-central1-a''
                ''testing-gce-0d3ee4b0-5a1c-11e5-9a0f-0242ac110002''], 1,
             Some (External ''connection reset by peer''))
   \<and> background 0 = None
   \<and> ZoneOperations_Get flaky_project 0 ''travis'' ''us-central1-a'' ''teardown''
       = Inl (External ''connection reset by peer'')"
proof -
  have "pollSelect flaky_project background ''travis'' ''us-central1-a'' ''teardown'' 0
      = Some (Suc 0, ErrChan (External ''connection reset by peer''))"
    by (rule pollSelect_transport) (simp_all add: background_def flaky_project_def gce_project_simps)
  then show ?thesis
    by (simp add: Stop_def py_instance_fields flaky_project_def gce_project_simps background_def)
qed

lemma Start_requests:
  "Start c ctx p a = Some (reqs, n, res) \<Longrightarrow>
     reqs = [] \<or>
     (\<exists>img. selectImage c p a = (Some img, None)
        \<and> reqs = [InsertRequest (p_projectID p) (ic_Zone_Name (p_ic p))
                    (newInstance p a img (NewUUID c))])"
  by (auto simp: Start_def Let_def split: prod.splits option.splits sum.splits selected.splits)

text \<open>
  Claim C8. The instance that \<^verbatim>\<open>Start\<close> builds for an image is preemptible; it has a
  single disk, a boot disk that is deleted with the instance and initialised from that
  image; exactly one network interface, whose one access config is of type
  \<^verbatim>\<open>ONE_TO_ONE_NAT\<close>; and the one metadata item \<^verbatim>\<open>startup-script\<close>, a bash script that
  writes the configured public key into \<^verbatim>\<open>~travis/.ssh/authorized_keys\<close>. Every insert
  request that \<^verbatim>\<open>Start\<close> issues is for the instance built for the selected image, in the
  provider's project and zone.
\<close>

theorem Start_insert_request:
  "(let inst = newInstance p startAttributes img uuid
    in sch_Preemptible (ci_Scheduling inst)
       \<and> (\<exists>disk. ci_Disks inst = [disk] \<and> ad_Boot disk \<and> ad_AutoDelete disk
             \<and> ip_SourceImage (ad_InitializeParams disk) = img_SelfLink img)
       \<and> (\<exists>ni ac. ci_NetworkInterfaces inst = [ni] \<and> ni_AccessConfigs ni = [ac]
             \<and> ac_Type ac = ''ONE_TO_ONE_NAT'')
       \<and> ci_Metadata inst =
           [\<lparr> mi_Key = ''startup-script'',
              mi_Value = ''#!/usr/bin/env bash'' @ [CHR 0x0A]
                @ ''cat > ~travis/.ssh/authorized_keys <<EOF'' @ [CHR 0x0A]
                @ ic_SSHPubKey (p_ic p) @ [CHR 0x0A]
                @ ''EOF'' @ [CHR 0x0A] \<rparr>])
   \<and> (Start c ctx p startAttributes = Some (reqs, n, res) \<longrightarrow>
      InsertRequest projectID zone requested \<in> set reqs \<longrightarrow>
        (\<exists>selected. selectImage c p startAttributes = (Some selected, None)
           \<and> requested = newInstance p startAttributes selected (NewUUID c)
           \<and> projectID = p_projectID p \<and> zone = ic_Zone_Name (p_ic p)))"
proof (intro conjI impI)
  show "let inst = newInstance p startAttributes img uuid
    in sch_Preemptible (ci_Scheduling inst)
       \<and> (\<exists>disk. ci_Disks inst = [disk] \<and> ad_Boot disk \<and> ad_AutoDelete disk
             \<and> ip_SourceImage (ad_InitializeParams disk) = img_SelfLink img)
       \<and> (\<exists>ni ac. ci_NetworkInterfaces inst = [ni] \<and> ni_AccessConfigs ni = [ac]
             \<and> ac_Type ac = ''ONE_TO_ONE_NAT'')
       \<and> ci_Metadata inst =
           [\<lparr> mi_Key = ''startup-script'',
              mi_Value = ''#!/usr/bin/env bash'' @ [CHR 0x0A]
                @ ''cat > ~travis/.ssh/authorized_keys <<EOF'' @ [CHR 0x0A]
                @ ic_SSHPubKey (p_ic p) @ [CHR 0x0A]
                @ ''EOF'' @ [CHR 0x0A] \<rparr>]"
    by (simp add: newInstance_def gceStartupScript_def)
next
  assume s: "Start c ctx p startAttributes = Some (reqs, n, res)"
    and r: "InsertRequest projectID zone requested \<in> set reqs"
  from Start_requests [OF s] r
  show "\<exists>selected. selectImage c p startAttributes = (Some selected, None)
           \<and> requested = newInstance p startAttributes selected (NewUUID c)
           \<and> projectID = p_projectID p \<and> zone = ic_Zone_Name (p_ic p)"
    by auto
qed

lemma py_select:
  "selectImage py_project py_provider \<lparr> Language = ''py'' \<rparr>
       = (Some (image_named ''travis-ci-python-2''), None)"
  by (simp add: selectImage_def candidateLangs_def imageForLanguage_def py_project_def gce_project_def py_provider_def
      provider_with_def gceImagesFilter_def py_images_def image_named_def matchesLanguage_def
      imageNames_of_def imagesByName_of_def Let_def)

lemma slow_select:
  "selectImage slow_project py_provider \<lparr> Language = ''py'' \<rparr>
       = (Some (image_named ''travis-ci-python-2''), None)"
  by (simp add: selectImage_def candidateLangs_def imageForLanguage_def slow_project_def gce_project_def py_provider_def
      provider_with_def gceImagesFilter_def py_images_def image_named_def matchesLanguage_def
      imageNames_of_def imagesByName_of_def Let_def)

lemma py_provider_fields:
  "p_projectID py_provider = ''travis''"
  "ic_Zone_Name (p_ic py_provider) = ''us-central1-a''"
  "p_ic py_provider = example_ic"
  "ic_Zone_Name example_ic = ''us-central1-a''"
  by (simp_all add: py_provider_def provider_with_def example_ic_def)

lemma Start_polled:
  assumes "selectImage c p a = (Some img, None)"
    and "Instances_Insert c (p_projectID p) (ic_Zone_Name (p_ic p))
           (newInstance p a img (NewUUID c)) = Inr op"
    and "pollSelect c ctx (p_projectID p) (ic_Zone_Name (p_ic p)) (op_Name op) 0 = Some (n, out)"
  shows "Start c ctx p a
     = Some ([InsertRequest (p_projectID p) (ic_Zone_Name (p_ic p))
                (newInstance p a img (NewUUID c))], n,
             case out of
               Ready \<Rightarrow>
                 Inr \<lparr> i_provider = p,
                       i_instance = newInstance p a img (NewUUID c),
                       i_ic = p_ic p,
                       i_authUser = ''travis'',
                       i_projectID = p_projectID p,
                       i_imageName = img_Name img \<rparr>
             | ErrChan err \<Rightarrow> Inl err
             | CtxDone err \<Rightarrow> Inl err)"
  using assms by (simp add: Start_def Let_def split: selected.splits)

lemma py_Start:
  "Start py_project background py_provider \<lparr> Language = ''py'' \<rparr>
     = Some ([InsertRequest ''travis'' ''us-central1-a'' (i_instance py_instance)], 1, Inr py_instance)"
proof -
  let ?op = "\<lparr> op_Name = ''boot'', op_Status = ''PENDING'', op_Error = None \<rparr>"
  have i: "Instances_Insert py_project (p_projectID py_provider) (ic_Zone_Name (p_ic py_provider))
           (newInstance py_provider \<lparr> Language = ''py'' \<rparr> (image_named ''travis-ci-python-2'')
              (NewUUID py_project)) = Inr ?op"
    by (simp add: py_project_def gce_project_simps)
  have "pollSelect py_project background ''travis'' ''us-central1-a'' ''boot'' 0 = Some (Suc 0, Ready)"
    by (rule pollSelect_ready [where newOp = "\<lparr> op_Name = ''boot'', op_Status = ''DONE'', op_Error = None \<rparr>"])
       (simp_all add: background_def py_project_def gce_project_simps)
  then have q: "pollSelect py_project background (p_projectID py_provider)
      (ic_Zone_Name (p_ic py_provider)) (op_Name ?op) 0 = Some (1, Ready)"
    by (simp add: py_provider_fields)
  have n: "newInstance py_provider \<lparr> Language = ''py'' \<rparr>
               (image_named ''travis-ci-python-2'') (NewUUID py_project) = i_instance py_instance"
    by (simp add: py_instance_def)
  have e: "\<lparr> i_provider = py_provider,
            i_instance = i_instance py_instance,
            i_ic = example_ic,
            i_authUser = ''travis'',
            i_projectID = ''travis'',
            i_imageName = img_Name (image_named ''travis-ci-python-2'') \<rparr> = py_instance"
    by (simp add: py_instance_def image_named_def)
  from Start_polled [OF py_select i q] show ?thesis
    by (simp add: py_provider_fields n e)
qed

text \<open>The request of a start for a job of language \<^verbatim>\<open>py\<close>.\<close>

theorem Start_insert_request_witness:
  "Start py_project background py_provider \<lparr> Language = ''py'' \<rparr>
     = Some ([InsertRequest ''travis'' ''us-central1-a'' (i_instance py_instance)], 1, Inr py_instance)
   \<and> (\<exists>selected. selectImage py_project py_provider \<lparr> Language = ''py'' \<rparr> = (Some selected, None)
         \<and> i_instance py_instance
             = newInstance py_provider \<lparr> Language = ''py'' \<rparr> selected (NewUUID py_project))
   \<and> sch_Preemptible (ci_Scheduling (i_instance py_instance))
   \<and> (\<exists>disk. ci_Disks (i_instance py_instance) = [disk] \<and> ad_Boot disk \<and> ad_AutoDelete disk
         \<and> ip_SourceImage (ad_InitializeParams disk)
             = ''projects/travis/global/images/travis-ci-python-2'')
   \<and> ci_Metadata (i_instance py_instance) =
        [\<lparr> mi_Key = ''startup-script'',
           mi_Value = ''#!/usr/bin/env bash'' @ [CHR 0x0A]
             @ ''cat > ~travis/.ssh/authorized_keys <<EOF'' @ [CHR 0x0A]
             @ ''ssh-rsa AAAAB3Nza operator'' @ [CHR 0x0A]
             @ ''EOF'' @ [CHR 0x0A] \<rparr>]"
proof -
  note t = Start_insert_request [of py_provider "\<lparr> Language = ''py'' \<rparr>"
      "image_named ''travis-ci-python-2''" "NewUUID py_project"
      py_project background
      "[InsertRequest ''travis'' ''us-central1-a'' (i_instance py_instance)]" 1 "Inr py_instance"
      "''travis''" "''us-central1-a''" "i_instance py_instance"]
  have n: "newInstance py_provider \<lparr> Language = ''py'' \<rparr>
               (image_named ''travis-ci-python-2'') (NewUUID py_project) = i_instance py_instance"
    by (simp add: py_instance_def)
  have k: "p_ic py_provider = example_ic" "ic_SSHPubKey example_ic = ''ssh-rsa AAAAB3Nza operator''"
    "img_SelfLink (image_named ''travis-ci-python-2'')
       = ''projects/travis/global/images/travis-ci-python-2''"
    by (simp_all add: py_provider_def provider_with_def example_ic_def image_named_def)
  from t py_Start show ?thesis
    unfolding n Let_def k by auto
qed

text \<open>
  Claim C3, as amended. Once an image is selected and the insert request is accepted, a
  context that is done before a poll has reported the operation \<^verbatim>\<open>DONE\<close> or has failed
  makes \<^verbatim>\<open>Start\<close> return no instance and the context's error. The image lookups and
  the insert request do not look at the context: when the selection or the request
  fails, \<^verbatim>\<open>Start\<close> returns that error, whatever the context.
\<close>

theorem Start_context_done:
  "(selectImage c p startAttributes = (Some img, None)
      \<and> Instances_Insert c (p_projectID p) (ic_Zone_Name (p_ic p))
            (newInstance p startAttributes img (NewUUID c)) = Inr op
      \<and> (\<forall>k<n. pending c ctx (p_projectID p) (ic_Zone_Name (p_ic p)) (op_Name op) k)
      \<and> ctx n = Some ctxErr \<longrightarrow>
        Start c ctx p startAttributes
          = Some ([InsertRequest (p_projectID p) (ic_Zone_Name (p_ic p))
                     (newInstance p startAttributes img (NewUUID c))], n, Inl ctxErr))
   \<and> (selectImage c p startAttributes = (noImage, Some err) \<longrightarrow>
        Start c ctx p startAttributes = Some ([], 0, Inl err))
   \<and> (selectImage c p startAttributes = (Some img, None)
      \<and> Instances_Insert c (p_projectID p) (ic_Zone_Name (p_ic p))
            (newInstance p startAttributes img (NewUUID c)) = Inl err \<longrightarrow>
        Start c ctx p startAttributes
          = Some ([InsertRequest (p_projectID p) (ic_Zone_Name (p_ic p))
                     (newInstance p startAttributes img (NewUUID c))], 0, Inl err))"
  (is "?done \<and> ?noimage \<and> ?noinsert")
proof (intro conjI)
  show ?done
  proof (intro impI, elim conjE)
    assume s: "selectImage c p startAttributes = (Some img, None)"
      and i: "Instances_Insert c (p_projectID p) (ic_Zone_Name (p_ic p))
            (newInstance p startAttributes img (NewUUID c)) = Inr op"
      and p: "\<forall>k<n. pending c ctx (p_projectID p) (ic_Zone_Name (p_ic p)) (op_Name op) k"
      and d: "ctx n = Some ctxErr"
    have "pollSelect c ctx (p_projectID p) (ic_Zone_Name (p_ic p)) (op_Name op) 0
        = Some (n, CtxDone ctxErr)"
      using pollSelect_from_0 [OF p] d by (simp add: pollSelect_ctx)
    from Start_polled [OF s i this]
    show "Start c ctx p startAttributes
          = Some ([InsertRequest (p_projectID p) (ic_Zone_Name (p_ic p))
                     (newInstance p startAttributes img (NewUUID c))], n, Inl ctxErr)"
      by simp
  qed
  show ?noimage by (simp add: Start_def split: option.splits)
  show ?noinsert by (simp add: Start_def Let_def)
qed

text \<open>A deadline that passes after the first poll of an operation that needs three.\<close>

theorem Start_context_done_witness:
  "Start slow_project deadline_after_1 py_provider \<lparr> Language = ''py'' \<rparr>
     = Some ([InsertRequest ''travis'' ''us-central1-a'' (i_instance py_instance)], 1,
             Inl DeadlineExceeded)"
proof -
  let ?op = "\<lparr> op_Name = ''boot'', op_Status = ''PENDING'', op_Error = None \<rparr>"
  have i: "Instances_Insert slow_project (p_projectID py_provider) (ic_Zone_Name (p_ic py_provider))
           (newInstance py_provider \<lparr> Language = ''py'' \<rparr> (image_named ''travis-ci-python-2'')
              (NewUUID slow_project)) = Inr ?op"
    by (simp add: slow_project_def gce_project_simps)
  have p: "\<forall>k<1. pending slow_project deadline_after_1 (p_projectID py_provider)
             (ic_Zone_Name (p_ic py_provider)) (op_Name ?op) k"
    by (simp add: pending_def slow_project_def gce_project_simps deadline_after_1_def)
  have d: "deadline_after_1 1 = Some DeadlineExceeded"
    by (simp add: deadline_after_1_def)
  have n: "newInstance py_provider \<lparr> Language = ''py'' \<rparr>
               (image_named ''travis-ci-python-2'') (NewUUID slow_project) = i_instance py_instance"
    by (simp add: py_instance_def slow_project_def py_project_def gce_project_simps)
  from Start_context_done [where c = slow_project and ctx = deadline_after_1 and p = py_provider
      and startAttributes = "\<lparr> Language = ''py'' \<rparr>"
      and img = "image_named ''travis-ci-python-2''" and op = ?op and n = 1
      and ctxErr = DeadlineExceeded]
    slow_select i p d
  show ?thesis by (simp add: py_provider_fields n)
qed

text \<open>
  A context cancelled before the call, in a project without images: \<^verbatim>\<open>Start\<close> returns
  the error of the image lookup, not the context's.
\<close>

theorem Start_cancelled_counterexample:
  "Start empty_project cancelled (provider_with Map.empty) \<lparr> Language = ''ruby'' \<rparr>
     = Some ([], 0, Inl (Errorf ''no image found with language minimal''))
   \<and> cancelled 0 = Some Canceled"
  by (simp add: Start_def selectImage_def candidateLangs_def imageForLanguage_def
      empty_project_def gce_project_def provider_with_def gceImagesFilter_def cancelled_def)

subsection \<open>SSH, upload and run\<close>

lemma firstNatIP_empty: "firstNatIP acs = [] \<longleftrightarrow> (\<forall>ac \<in> set acs. ac_NatIP ac = [])"
  by (induction acs) auto

lemma getIP_loop_empty:
  "getIP_loop nis = [] \<longleftrightarrow> (\<forall>ni \<in> set nis. \<forall>ac \<in> set (ni_AccessConfigs ni). ac_NatIP ac = [])"
  by (induction nis) (auto simp: firstNatIP_empty)

lemma getIP_empty: "getIP i = [] \<longleftrightarrow> \<not> hasNatIP (i_instance i)"
  by (simp add: getIP_def hasNatIP_def getIP_loop_empty)

lemma sshClient_no_ip:
  "\<not> hasNatIP (i_instance (fst (refreshInstance r i))) \<Longrightarrow>
     sshClient r i
       = (Inl gceMissingIPAddressError, fst (refreshInstance r i),
          [InstancesGet (i_projectID i) (ic_Zone_Name (i_ic i)) (ci_Name (i_instance i))])"
  by (simp add: sshClient_def Let_def getIP_empty)

text \<open>
  Claim C10, as amended. \<^verbatim>\<open>sshClient\<close> first refreshes the instance: the record it
  reads the address from is the one the API has just answered, or the record already held
  when the refresh fails. When that record has no network interface with a non-empty NAT
  IP, \<^verbatim>\<open>sshClient\<close> returns \<open>gceMissingIPAddressError\<close> having made the refresh request
  and no SSH dial; an upload attempt then returns that error, and \<^verbatim>\<open>RunScript\<close> returns
  a result that is not completed together with that error.
\<close>

theorem sshClient_missing_ip:
  "\<not> hasNatIP (i_instance (fst (refreshInstance r i))) \<longrightarrow>
     sshClient r i
       = (Inl gceMissingIPAddressError, fst (refreshInstance r i),
          [InstancesGet (i_projectID i) (ic_Zone_Name (i_ic i)) (ci_Name (i_instance i))])
     \<and> uploadScriptAttempt r script (i, v)
       = (Some gceMissingIPAddressError, (fst (refreshInstance r i), v),
          [InstancesGet (i_projectID i) (ic_Zone_Name (i_ic i)) (ci_Name (i_instance i))])
     \<and> RunScript r i
       = ((\<lparr> Completed = False, ExitCode = 0 \<rparr>, Some gceMissingIPAddressError),
          fst (refreshInstance r i),
          [InstancesGet (i_projectID i) (ic_Zone_Name (i_ic i)) (ci_Name (i_instance i))])"
  by (simp add: sshClient_no_ip uploadScriptAttempt_def RunScript_def failed_def)

lemma py_instance_no_ip: "\<not> hasNatIP (i_instance py_instance)"
  by (simp add: hasNatIP_def py_instance_def newInstance_def)

lemma py_instance_all_fields:
  "i_projectID py_instance = ''travis''"
  "ic_Zone_Name (i_ic py_instance) = ''us-central1-a''"
  "ci_Name (i_instance py_instance) = ''testing-gce-0d3ee4b0-5a1c-11e5-9a0f-0242ac110002''"
  "i_authUser py_instance = ''travis''"
  "ic_SSHKeySigner (i_ic py_instance) = ''operator-key''"
  by (simp_all add: py_instance_def example_ic_def newInstance_def py_project_def gce_project_def)

text \<open>The instance as \<^verbatim>\<open>Start\<close> returned it, while the API cannot be reached.\<close>

theorem sshClient_missing_ip_witness:
  "\<not> hasNatIP (i_instance (fst (refreshInstance (remote_ok (Inl (External ''503'')) None) py_instance)))
   \<and> sshClient (remote_ok (Inl (External ''503'')) None) py_instance
       = (Inl (Errorf ''no IP address found''), py_instance,
          [InstancesGet ''travis'' ''us-central1-a''
             ''testing-gce-0d3ee4b0-5a1c-11e5-9a0f-0242ac110002''])
   \<and> fst (RunScript (remote_ok (Inl (External ''503'')) None) py_instance)
       = (\<lparr> Completed = False, ExitCode = 0 \<rparr>, Some (Errorf ''no IP address found''))"
proof -
  have r: "fst (refreshInstance (remote_ok (Inl (External ''503'')) None) py_instance) = py_instance"
    by (simp add: refreshInstance_def remote_ok_def)
  have h: "\<not> hasNatIP (i_instance (fst (refreshInstance (remote_ok (Inl (External ''503'')) None) py_instance)))"
    using py_instance_no_ip by (simp add: r)
  from h sshClient_missing_ip [of "remote_ok (Inl (External ''503'')) None" py_instance "''echo hi''" fresh_vm]
  show ?thesis
    by (simp add: r py_instance_all_fields gceMissingIPAddressError_def)
qed

lemma booted_ip: "getIP (py_instance \<lparr> i_instance := booted_record \<rparr>) = ''203.0.113.7''"
  by (simp add: getIP_def booted_record_def)

text \<open>
  The record an instance holds when \<^verbatim>\<open>Start\<close> returns it is the insert request, which
  has no NAT IP. Read as a statement about the record the instance holds, the claim would
  make every connection fail; the refresh replaces the record, and the dial goes ahead.
\<close>

theorem sshClient_refresh_counterexample:
  "\<not> hasNatIP (i_instance py_instance)
   \<and> sshClient (remote_ok (Inr booted_record) None) py_instance
       = (Inr (), py_instance \<lparr> i_instance := booted_record \<rparr>,
          [InstancesGet ''travis'' ''us-central1-a''
             ''testing-gce-0d3ee4b0-5a1c-11e5-9a0f-0242ac110002'',
           SSHDial ''tcp'' ''203.0.113.7:22'' ''travis'' [''operator-key'']])"
proof -
  have r: "fst (refreshInstance (remote_ok (Inr booted_record) None) py_instance)
      = py_instance \<lparr> i_instance := booted_record \<rparr>"
    by (simp add: refreshInstance_def remote_ok_def)
  have d: "r_ssh_Dial (remote_ok (Inr booted_record) None) = None"
    by (simp add: remote_ok_def)
  show ?thesis
    using py_instance_no_ip
    by (simp add: sshClient_def Let_def r d booted_ip py_instance_all_fields)
qed

text \<open>Uploading to a VM that already holds \<^verbatim>\<open>build.sh\<close>.\<close>

lemma sshClient_booted:
  "sshClient (remote_ok (Inr booted_record) run) i
     = (Inr (), i \<lparr> i_instance := booted_record \<rparr>,
        [InstancesGet (i_projectID i) (ic_Zone_Name (i_ic i)) (ci_Name (i_instance i)),
         SSHDial ''tcp'' ''203.0.113.7:22'' (i_authUser i) [ic_SSHKeySigner (i_ic i)]])"
  by (simp add: sshClient_def Let_def refreshInstance_def remote_ok_def getIP_def booted_record_def)

lemma remote_ok_fields:
  "r_Instances_Get (remote_ok record run) = record"
  "r_ssh_Dial (remote_ok record run) = None"
  "r_sftp_NewClient (remote_ok record run) = None"
  "r_sftp_Create (remote_ok record run) = None"
  "r_Write (remote_ok record run) = None"
  "r_NewSession (remote_ok record run) = None"
  "r_RequestPty (remote_ok record run) = None"
  "r_session_Run (remote_ok record run) = run"
  by (simp_all add: remote_ok_def)

lemma stale_Lstat: "sftp_Lstat stale_vm ''build.sh'' = None"
  by (simp add: sftp_Lstat_def sftp_path_def stale_vm_def)

lemma stale_attempt:
  "uploadScriptAttempt (remote_ok (Inr booted_record) None) script (i, stale_vm)
     = (Some ErrStaleVM, (i \<lparr> i_instance := booted_record \<rparr>, stale_vm),
        [InstancesGet (i_projectID i) (ic_Zone_Name (i_ic i)) (ci_Name (i_instance i)),
         SSHDial ''tcp'' ''203.0.113.7:22'' (i_authUser i) [ic_SSHKeySigner (i_ic i)],
         SftpNewClient, SftpLstat ''build.sh''])"
  by (simp add: uploadScriptAttempt_def sshClient_booted stale_Lstat remote_ok_fields)

lemma uploadSelect_never_returns:
  assumes ctx: "\<forall>n. ctx n = None"
    and step: "\<And>n s. I s \<Longrightarrow> \<exists>e s' evs. uploadScriptAttempt (rs n) script s = (Some e, s', evs) \<and> I s'"
    and init: "I (fst st)"
  shows "uploadSelect rs ctx script n st = None"
proof (rule ccontr)
  assume "uploadSelect rs ctx script n st \<noteq> None"
  then obtain y where "uploadSelect rs ctx script n st = Some y" by blast
  then have "(\<forall>n. ctx n = None) \<longrightarrow>
      (\<forall>n s. I s \<longrightarrow> (\<exists>e s' evs. uploadScriptAttempt (rs n) script s = (Some e, s', evs) \<and> I s')) \<longrightarrow>
      I (fst st) \<longrightarrow> False"
  proof (induction rule: uploadSelect.raw_induct [rotated 1, consumes 1])
    case (1 uploadSelect' rs ctx script n st y)
    show ?case
    proof (intro impI)
      assume c: "\<forall>n. ctx n = None"
        and s: "\<forall>n s. I s \<longrightarrow> (\<exists>e s' evs. uploadScriptAttempt (rs n) script s = (Some e, s', evs) \<and> I s')"
        and i: "I (fst st)"
      from s i obtain e s' evs where a: "uploadScriptAttempt (rs n) script (fst st) = (Some e, s', evs)"
        and i': "I s'" by blast
      from 1(2) c a have "uploadSelect' rs ctx script (Suc n) (s', Some e) = Some y" by simp
      have "I (fst (s', Some e))" using i' by simp
      with 1(1) [OF \<open>uploadSelect' rs ctx script (Suc n) (s', Some e) = Some y\<close>] c s
      show False by blast
    qed
  qed
  with assms show False by blast
qed

text \<open>
  Claim C1. On a VM whose home directory already holds \<^verbatim>\<open>build.sh\<close>, with SSH and
  SFTP working, each attempt returns \<open>ErrStaleVM\<close>. \<^verbatim>\<open>UploadScript\<close> does not hand that
  on: its loop goes on after a failed attempt, and only a done context makes it return,
  with whatever \<open>uploadErr\<close> holds then. Under a context that is cancelled before the
  first attempt has ended it returns nil; under a context that is never done it never
  returns; it returns \<open>ErrStaleVM\<close> when the context is done after an attempt has ended.
\<close>

theorem UploadScript_stale_vm:
  "fst (uploadScriptAttempt (remote_ok (Inr booted_record) None) ''echo hi'' (py_instance, stale_vm))
     = Some ErrStaleVM
   \<and> UploadScript (\<lambda>n. remote_ok (Inr booted_record) None) cancelled ''echo hi''
       (py_instance, stale_vm)
     = Some (None, (py_instance, stale_vm), 0)
   \<and> UploadScript (\<lambda>n. remote_ok (Inr booted_record) None) background ''echo hi''
       (py_instance, stale_vm)
     = None
   \<and> UploadScript (\<lambda>n. remote_ok (Inr booted_record) None) deadline_after_1 ''echo hi''
       (py_instance, stale_vm)
     = Some (Some ErrStaleVM, (py_instance \<lparr> i_instance := booted_record \<rparr>, stale_vm), 1)"
proof (intro conjI)
  show "fst (uploadScriptAttempt (remote_ok (Inr booted_record) None) ''echo hi'' (py_instance, stale_vm))
     = Some ErrStaleVM"
    by (simp add: stale_attempt)
  show "UploadScript (\<lambda>n. remote_ok (Inr booted_record) None) cancelled ''echo hi''
       (py_instance, stale_vm) = Some (None, (py_instance, stale_vm), 0)"
    unfolding UploadScript_def by (subst uploadSelect.simps) (simp add: cancelled_def)
  show "UploadScript (\<lambda>n. remote_ok (Inr booted_record) None) background ''echo hi''
       (py_instance, stale_vm) = None"
    unfolding UploadScript_def
  proof (rule uploadSelect_never_returns [where I = "\<lambda>s. snd s = stale_vm"])
    show "\<forall>n. background n = None" by (simp add: background_def)
    show "\<exists>e s' evs. uploadScriptAttempt (remote_ok (Inr booted_record) None) ''echo hi'' s
        = (Some e, s', evs) \<and> snd s' = stale_vm" if "snd s = stale_vm" for n s
      using that stale_attempt [of "''echo hi''" "fst s"] by (cases s) simp
    show "snd (fst ((py_instance, stale_vm), None)) = stale_vm" by simp
  qed
  have "uploadSelect (\<lambda>n. remote_ok (Inr booted_record) None) deadline_after_1 ''echo hi'' (Suc 0)
      ((py_instance \<lparr> i_instance := booted_record \<rparr>, stale_vm), Some ErrStaleVM)
    = Some (Some ErrStaleVM, (py_instance \<lparr> i_instance := booted_record \<rparr>, stale_vm), Suc 0)"
    by (subst uploadSelect.simps) (simp add: deadline_after_1_def)
  then show "UploadScript (\<lambda>n. remote_ok (Inr booted_record) None) deadline_after_1 ''echo hi''
       (py_instance, stale_vm)
     = Some (Some ErrStaleVM, (py_instance \<lparr> i_instance := booted_record \<rparr>, stale_vm), 1)"
    unfolding UploadScript_def
    by (subst uploadSelect.simps) (simp add: deadline_after_1_def stale_attempt)
qed

lemma RunScript_result:
  "fst (RunScript r i) =
     (case fst (sshClient r i) of
        Inl err \<Rightarrow> (failed, Some err)
      | Inr client \<Rightarrow>
          (case r_NewSession r of
             Some err \<Rightarrow> (failed, Some err)
           | None \<Rightarrow>
               (case r_RequestPty r of
                  Some err \<Rightarrow> (failed, Some err)
                | None \<Rightarrow>
                    (case r_session_Run r of
                       None \<Rightarrow> (\<lparr> Completed = True, ExitCode = 0 \<rparr>, None)
                     | Some (ExitError status) \<Rightarrow>
                         (\<lparr> Completed = True, ExitCode = word_of_int status \<rparr>, None)
                     | Some err \<Rightarrow> (failed, Some err)))))"
  by (simp add: RunScript_def Let_def split: prod.splits sum.splits option.splits error.splits)

lemma sshClient_result:
  "fst (sshClient r i) =
     (if (case r_Instances_Get r of
            Inl refreshErr \<Rightarrow> hasNatIP (i_instance i)
          | Inr inst \<Rightarrow> hasNatIP inst)
      then (case r_ssh_Dial r of Some err \<Rightarrow> Inl err | None \<Rightarrow> Inr ())
      else Inl gceMissingIPAddressError)"
  by (cases "r_Instances_Get r")
     (simp_all add: sshClient_def Let_def getIP_empty refreshInstance_def split: option.splits)

text \<open>
  Claim C2. The hypotheses are the answers of the outside: the record that the refresh
  leaves (the API's answer, or the record held when the refresh fails) and the errors of
  \<^verbatim>\<open>ssh.Dial\<close>, \<^verbatim>\<open>NewSession\<close>, \<^verbatim>\<open>RequestPty\<close> and \<^verbatim>\<open>session.Run\<close>. When the record
  has a NAT IP, the dial, the session and the pty request succeed and the command exits
  with status \<open>n\<close>, \<^verbatim>\<open>RunScript\<close> returns a completed result with the exit code
  \<^verbatim>\<open>uint8(n)\<close>, which is \<open>n\<close> itself for every status from 0 to 255, and no error. When
  the record has no NAT IP, or the dial, the session, the pty request or the run itself
  fails (an error of \<^verbatim>\<open>session.Run\<close> that is no exit error), it returns a result that
  is not completed and that error. The result is completed exactly when the error is nil.
\<close>

theorem RunScript_exit_code:
  "((case r_Instances_Get r of
       Inl refreshErr \<Rightarrow> hasNatIP (i_instance i)
     | Inr inst \<Rightarrow> hasNatIP inst)
      \<and> r_ssh_Dial r = None \<and> r_NewSession r = None \<and> r_RequestPty r = None
      \<and> r_session_Run r = session_Run_exit n \<longrightarrow>
        fst (RunScript r i) = (\<lparr> Completed = True, ExitCode = word_of_int n \<rparr>, None)
        \<and> (0 \<le> n \<and> n < 256 \<longrightarrow> uint (ExitCode (fst (fst (RunScript r i)))) = n))
   \<and> (\<not> (case r_Instances_Get r of
            Inl refreshErr \<Rightarrow> hasNatIP (i_instance i)
          | Inr inst \<Rightarrow> hasNatIP inst) \<longrightarrow>
        fst (RunScript r i)
          = (\<lparr> Completed = False, ExitCode = 0 \<rparr>, Some gceMissingIPAddressError))
   \<and> ((case r_Instances_Get r of
          Inl refreshErr \<Rightarrow> hasNatIP (i_instance i)
        | Inr inst \<Rightarrow> hasNatIP inst)
      \<and> r_ssh_Dial r = Some err \<longrightarrow>
        fst (RunScript r i) = (\<lparr> Completed = False, ExitCode = 0 \<rparr>, Some err))
   \<and> ((case r_Instances_Get r of
          Inl refreshErr \<Rightarrow> hasNatIP (i_instance i)
        | Inr inst \<Rightarrow> hasNatIP inst)
      \<and> r_ssh_Dial r = None \<and> r_NewSession r = Some err \<longrightarrow>
        fst (RunScript r i) = (\<lparr> Completed = False, ExitCode = 0 \<rparr>, Some err))
   \<and> ((case r_Instances_Get r of
          Inl refreshErr \<Rightarrow> hasNatIP (i_instance i)
        | Inr inst \<Rightarrow> hasNatIP inst)
      \<and> r_ssh_Dial r = None \<and> r_NewSession r = None \<and> r_RequestPty r = Some err \<longrightarrow>
        fst (RunScript r i) = (\<lparr> Completed = False, ExitCode = 0 \<rparr>, Some err))
   \<and> ((case r_Instances_Get r of
          Inl refreshErr \<Rightarrow> hasNatIP (i_instance i)
        | Inr inst \<Rightarrow> hasNatIP inst)
      \<and> r_ssh_Dial r = None \<and> r_NewSession r = None \<and> r_RequestPty r = None
      \<and> r_session_Run r = Some err \<and> (\<forall>status. err \<noteq> ExitError status) \<longrightarrow>
        fst (RunScript r i) = (\<lparr> Completed = False, ExitCode = 0 \<rparr>, Some err))
   \<and> (Completed (fst (fst (RunScript r i))) \<longleftrightarrow> snd (fst (RunScript r i)) = None)"
  (is "?exit \<and> ?noip \<and> ?dial \<and> ?session \<and> ?pty \<and> ?run \<and> ?iff")
proof (intro conjI)
  show ?exit
  proof (intro impI, elim conjE)
    assume a: "case r_Instances_Get r of
         Inl refreshErr \<Rightarrow> hasNatIP (i_instance i)
       | Inr inst \<Rightarrow> hasNatIP inst"
      "r_ssh_Dial r = None" "r_NewSession r = None" "r_RequestPty r = None"
      "r_session_Run r = session_Run_exit n"
    have res: "fst (RunScript r i) = (\<lparr> Completed = True, ExitCode = word_of_int n \<rparr>, None)"
      using a by (simp add: RunScript_result sshClient_result session_Run_exit_def)
    have "0 \<le> n \<and> n < 256 \<longrightarrow> uint (word_of_int n :: 8 word) = n"
      by (simp add: uint_word_of_int take_bit_int_eq_self)
    with res show "fst (RunScript r i) = (\<lparr> Completed = True, ExitCode = word_of_int n \<rparr>, None)
        \<and> (0 \<le> n \<and> n < 256 \<longrightarrow> uint (ExitCode (fst (fst (RunScript r i)))) = n)"
      by simp
  qed
  show ?noip by (simp add: RunScript_result sshClient_result failed_def)
  show ?dial by (simp add: RunScript_result sshClient_result failed_def)
  show ?session by (simp add: RunScript_result sshClient_result failed_def)
  show ?pty by (simp add: RunScript_result sshClient_result failed_def)
  show ?run by (cases err) (simp_all add: RunScript_result sshClient_result failed_def)
  show ?iff
    by (simp add: RunScript_result failed_def split: sum.splits option.splits error.splits)
qed

lemma booted_has_ip: "hasNatIP booted_record"
  by (simp add: hasNatIP_def booted_record_def)

text \<open>
  Exit 42, exit 0, a session lost while the script runs, a refused connection, and an
  instance without an address.
\<close>

theorem RunScript_exit_code_witness:
  "fst (RunScript (remote_ok (Inr booted_record) (session_Run_exit 42)) py_instance)
     = (\<lparr> Completed = True, ExitCode = 42 \<rparr>, None)
   \<and> uint (ExitCode (fst (fst (RunScript (remote_ok (Inr booted_record) (session_Run_exit 42))
        py_instance)))) = 42
   \<and> fst (RunScript (remote_ok (Inr booted_record) (session_Run_exit 0)) py_instance)
     = (\<lparr> Completed = True, ExitCode = 0 \<rparr>, None)
   \<and> fst (RunScript (remote_ok (Inr booted_record) (Some (External ''ssh: disconnect'')))
        py_instance)
     = (\<lparr> Completed = False, ExitCode = 0 \<rparr>, Some (External ''ssh: disconnect''))
   \<and> fst (RunScript
        ((remote_ok (Inr booted_record) None)
           \<lparr> r_ssh_Dial := Some (External ''dial tcp: connection refused'') \<rparr>)
        py_instance)
     = (\<lparr> Completed = False, ExitCode = 0 \<rparr>, Some (External ''dial tcp: connection refused''))
   \<and> fst (RunScript (remote_ok (Inl (External ''503'')) None) py_instance)
     = (\<lparr> Completed = False, ExitCode = 0 \<rparr>, Some (Errorf ''no IP address found''))"
proof -
  have refused:
    "r_Instances_Get ((remote_ok (Inr booted_record) None)
        \<lparr> r_ssh_Dial := Some (External ''dial tcp: connection refused'') \<rparr>) = Inr booted_record"
    "r_ssh_Dial ((remote_ok (Inr booted_record) None)
        \<lparr> r_ssh_Dial := Some (External ''dial tcp: connection refused'') \<rparr>)
       = Some (External ''dial tcp: connection refused'')"
    by (simp_all add: remote_ok_def)
  show ?thesis
    using
      RunScript_exit_code [where r = "remote_ok (Inr booted_record) (session_Run_exit 42)"
        and i = py_instance and n = 42]
      RunScript_exit_code [where r = "remote_ok (Inr booted_record) (session_Run_exit 0)"
        and i = py_instance and n = 0]
      RunScript_exit_code [where r = "remote_ok (Inr booted_record) (Some (External ''ssh: disconnect''))"
        and i = py_instance and err = "External ''ssh: disconnect''"]
      RunScript_exit_code [where r = "(remote_ok (Inr booted_record) None)
           \<lparr> r_ssh_Dial := Some (External ''dial tcp: connection refused'') \<rparr>"
        and i = py_instance and err = "External ''dial tcp: connection refused''"]
      RunScript_exit_code [where r = "remote_ok (Inl (External ''503'')) None"
        and i = py_instance]
    by (simp add: remote_ok_fields refused booted_has_ip py_instance_no_ip
        gceMissingIPAddressError_def)
qed










subsection \<open>Exit status\<close>

lemma runWorker_ending: "snd (runWorker io) \<noteq> OsExit n"
  by (simp add: runWorker_def Let_def split: option.splits)

text \<open>
  Claim C6, as amended. When the message bus cannot be reached or the provider cannot be
  created, \<^verbatim>\<open>runWorker\<close> logs the error and returns without running the pool, and the
  process exits with status 0, as it does after a clean shutdown. No run of the entry
  point ends with another status.
\<close>

theorem main_exit_status:
  "(w_amqp_Dial io = Some err \<longrightarrow>
      main io =
        ([Logged Debug ''read config'',
          Logged Info (if w_librato io then ''starting librato metrics reporter''
                       else ''starting logger metrics reporter''),
          Logged Error ''couldn't connect to AMQP''], Some 0))
   \<and> (w_amqp_Dial io = None \<and> w_NewProvider io = Some err \<longrightarrow>
      main io =
        ([Logged Debug ''read config'',
          Logged Info (if w_librato io then ''starting librato metrics reporter''
                       else ''starting logger metrics reporter''),
          Logged Debug ''connected to AMQP'',
          Logged Error ''couldn't create backend provider''], Some 0))
   \<and> (w_amqp_Dial io = None \<and> w_NewProvider io = None \<and> w_pool_Run_returns io \<longrightarrow>
      snd (main io) = Some 0 \<and> PoolRun \<in> set (fst (main io)))
   \<and> (snd (main io) \<noteq> None \<longrightarrow> snd (main io) = Some 0)"
  by (simp add: main_def runWorker_def Let_def split: option.splits)

lemma io_fields:
  "w_amqp_Dial io_no_bus = Some (External ''dial tcp: connection refused'')"
  "w_librato io_no_bus = False"
  "w_amqp_Dial io_bad_config = None"
  "w_NewProvider io_bad_config = Some (Errorf ''mising PROJECT_ID'')"
  "w_librato io_bad_config = False"
  "w_amqp_Dial io_clean = None"
  "w_NewProvider io_clean = None"
  "w_pool_Run_returns io_clean = True"
  by (simp_all add: io_no_bus_def io_bad_config_def io_clean_def)

text \<open>The three start-ups: no bus, no provider, all well.\<close>

theorem main_exit_status_witness:
  "main io_no_bus =
     ([Logged Debug ''read config'', Logged Info ''starting logger metrics reporter'',
       Logged Error ''couldn't connect to AMQP''], Some 0)
   \<and> main io_bad_config =
     ([Logged Debug ''read config'', Logged Info ''starting logger metrics reporter'',
       Logged Debug ''connected to AMQP'',
       Logged Error ''couldn't create backend provider''], Some 0)
   \<and> snd (main io_clean) = Some 0 \<and> PoolRun \<in> set (fst (main io_clean))"
proof (intro conjI)
  show "main io_no_bus =
     ([Logged Debug ''read config'', Logged Info ''starting logger metrics reporter'',
       Logged Error ''couldn't connect to AMQP''], Some 0)"
    using main_exit_status [of io_no_bus "External ''dial tcp: connection refused''"]
    by (simp only: io_fields if_False simp_thms)
  show "main io_bad_config =
     ([Logged Debug ''read config'', Logged Info ''starting logger metrics reporter'',
       Logged Debug ''connected to AMQP'',
       Logged Error ''couldn't create backend provider''], Some 0)"
    using main_exit_status [of io_bad_config "Errorf ''mising PROJECT_ID''"]
    by (simp only: io_fields if_False simp_thms option.simps)
  show "snd (main io_clean) = Some 0" "PoolRun \<in> set (fst (main io_clean))"
    using main_exit_status [of io_clean] by (simp_all only: io_fields simp_thms)
qed

text \<open>The claim asks for a status other than 0 in the first two.\<close>

theorem startup_failure_exit_counterexample:
  "w_amqp_Dial io_no_bus = Some (External ''dial tcp: connection refused'')
   \<and> snd (main io_no_bus) = Some 0
   \<and> w_NewProvider io_bad_config = Some (Errorf ''mising PROJECT_ID'')
   \<and> snd (main io_bad_config) = Some 0"
  by (simp add: main_def runWorker_def Let_def io_fields)

end
